theory Spec2Isabelle
  imports Main
begin

section \<open>The error registry: data model\<close>

text \<open>
  The development embeds \<^verbatim>\<open>createErrorRegistry\<close> of \<^verbatim>\<open>errorRegistry.ts\<close> (the version
  with \<^verbatim>\<open>createErrorFromCreator\<close> and variadic handler context). The closure variables of one
  registry instance (\<^verbatim>\<open>seekers\<close>, \<^verbatim>\<open>baseError\<close>, \<^verbatim>\<open>errorRegistry\<close>, \<^verbatim>\<open>handlerRegistry\<close>)
  are a record that every operation receives; the mutating operations return the new record.
\<close>

text \<open>
  What an evaluation throws: a TypeError raised by the language itself, or a value \<open>'x\<close>
  thrown by code of the caller (a creator, a handler, a getter, a \<^verbatim>\<open>toString\<close>).
\<close>

datatype 'x exn = TypeError | Thrown 'x

text \<open>
  A JavaScript value, as far as the registry observes it. The registry compares a value with
  \<^verbatim>\<open>null\<close> and converts it to a string (by \<^verbatim>\<open>String\<close>, or inside \<^verbatim>\<open>new Error\<close>), nothing else;
  so a number is given by its string form
  (\<^verbatim>\<open>404\<close> is \<open>VNumber ''404''\<close>, \<^verbatim>\<open>1e21\<close> is \<open>VNumber ''1e+21''\<close>), a symbol by its description,
  and an object (a function, an array) by the outcome of its conversion to a string: the
  string, or what the conversion throws (a TypeError for an object without prototype,
  anything for a \<^verbatim>\<open>toString\<close> that throws).
\<close>

datatype 'x val =
    VUndefined
  | VNull
  | VBool bool
  | VNumber string
  | VStr string
  | VSymbol string
  | VObject "'x exn + string"

text \<open>\<^verbatim>\<open>value != null\<close> is false exactly for \<^verbatim>\<open>null\<close> and \<^verbatim>\<open>undefined\<close>.\<close>

fun nullish :: "'x val \<Rightarrow> bool" where
  "nullish VUndefined = True"
| "nullish VNull = True"
| "nullish _ = False"

text \<open>\<^verbatim>\<open>String(value)\<close>. It describes a symbol and throws what an object's conversion throws.\<close>

fun js_String :: "'x val \<Rightarrow> 'x exn + string" where
  "js_String VUndefined = Inr ''undefined''"
| "js_String VNull = Inr ''null''"
| "js_String (VBool b) = Inr (if b then ''true'' else ''false'')"
| "js_String (VNumber s) = Inr s"
| "js_String (VStr s) = Inr s"
| "js_String (VSymbol d) = Inr (''Symbol('' @ d @ '')'')"
| "js_String (VObject r) = r"

text \<open>
  The argument of \<^verbatim>\<open>createError\<close>: \<^verbatim>\<open>null\<close>/\<^verbatim>\<open>undefined\<close> (\<open>None\<close>) or a record. A property of
  a record is given by the outcome of reading it: its value, or what its getter throws.
  \<^verbatim>\<open>dataRecord?.[seeker]\<close> reads \<^verbatim>\<open>undefined\<close> from a null record and from an absent property.
\<close>

type_synonym 'x data = "(string \<rightharpoonup> 'x exn + 'x val) option"

definition get_prop :: "'x data \<Rightarrow> string \<Rightarrow> 'x exn + 'x val" where
  "get_prop dataRecord seeker =
     (case dataRecord of
        None \<Rightarrow> Inr VUndefined
      | Some r \<Rightarrow> (case r seeker of None \<Rightarrow> Inr VUndefined | Some outcome \<Rightarrow> outcome))"

text \<open>
  The first lines of the body of either seeker loop:
  \<^verbatim>\<open>const value = record?.[seeker]; if (value != null) { const key = String(value); ... }\<close>.
  The result is the key, \<open>None\<close> when the value is null or undefined, or what the read or the
  conversion throws.
\<close>

definition seeker_key :: "'x data \<Rightarrow> string \<Rightarrow> 'x exn + string option" where
  "seeker_key dataRecord seeker =
     (case get_prop dataRecord seeker of
        Inl ex \<Rightarrow> Inl ex
      | Inr value \<Rightarrow>
          if \<not> nullish value then
            (case js_String value of Inl ex \<Rightarrow> Inl ex | Inr key \<Rightarrow> Inr (Some key))
          else Inr None)"

text \<open>
  An error object, as \<^verbatim>\<open>handleError\<close> receives it (an object, by its type \<^verbatim>\<open>TError\<close>): its
  properties, and the outcome of reading \<^verbatim>\<open>error.constructor?.name\<close>: the name, \<open>None\<close> when
  the constructor or its name is undefined or no string (the lookup then finds nothing),
  or what a getter throws.
\<close>

record 'x jsobj =
  props :: "string \<rightharpoonup> 'x exn + 'x val"
  ctor_name :: "'x exn + string option"

text \<open>
  The instance that \<^verbatim>\<open>new Error(message)\<close> returns for a string. Of its properties,
  \<^verbatim>\<open>message\<close> and the inherited \<^verbatim>\<open>name\<close> are modelled.
\<close>

definition Error_object :: "string \<Rightarrow> 'x jsobj" where
  "Error_object message =
     \<lparr>props = [''message'' \<mapsto> Inr (VStr message), ''name'' \<mapsto> Inr (VStr ''Error'')],
      ctor_name = Inr (Some ''Error'')\<rparr>"

text \<open>
  \<^verbatim>\<open>new Error(message)\<close>: an \<^verbatim>\<open>undefined\<close> message leaves the inherited empty message; any
  other is converted to a string, which throws a TypeError for a symbol and what the
  conversion throws for an object.
\<close>

fun new_Error :: "'x val \<Rightarrow> 'x exn + 'x jsobj" where
  "new_Error VUndefined = Inr (Error_object [])"
| "new_Error (VSymbol d) = Inl TypeError"
| "new_Error message =
     (case js_String message of Inl ex \<Rightarrow> Inl ex | Inr s \<Rightarrow> Inr (Error_object s))"

text \<open>
  An \<^verbatim>\<open>ErrorCreator\<close> is observed through four things: whether \<^verbatim>\<open>typeof creator\<close> is
  \<^verbatim>\<open>'function'\<close>, whether it has a \<^verbatim>\<open>prototype\<close> property, what \<^verbatim>\<open>new creator(data)\<close> does and
  what \<^verbatim>\<open>creator(data)\<close> does. Either invocation returns an error object (\<open>Inr\<close>) or throws
  (\<open>Inl\<close>).
\<close>

record 'x creator =
  is_function :: bool
  has_prototype :: bool
  construct :: "'x data \<Rightarrow> 'x exn + 'x jsobj"
  call :: "'x data \<Rightarrow> 'x exn + 'x jsobj"

text \<open>
  A handler receives the error and the context values and acts on the world \<open>'w\<close>; it
  completes with the new world or throws (rejects).
\<close>

type_synonym ('c, 'w, 'x) handler = "'x jsobj \<Rightarrow> 'c list \<Rightarrow> 'w \<Rightarrow> 'x exn + 'w"

record ('c, 'w, 'x) config =
  cfg_seekers :: "string list option"
  cfg_baseError :: "'x creator option"
  cfg_errors :: "(string \<times> 'x creator) list"
  cfg_handlers :: "(string \<times> ('c, 'w, 'x) handler) list"

record ('c, 'w, 'x) registry =
  seekers :: "string list"
  baseError :: "'x creator option"
  errorRegistry :: "string \<rightharpoonup> 'x creator"
  handlerRegistry :: "string \<rightharpoonup> ('c, 'w, 'x) handler"

text \<open>
  The keys of \<^verbatim>\<open>registerError\<close> and \<^verbatim>\<open>registerHandler\<close> are strings or numbers, a number
  again given by its string form; \<^verbatim>\<open>String(key)\<close> is total on them.
\<close>

datatype key = KString string | KNumber string

fun key_String :: "key \<Rightarrow> string" where
  "key_String (KString s) = s"
| "key_String (KNumber s) = s"

section \<open>Operations\<close>

definition defaultSeekers :: "string list" where
  "defaultSeekers = [''code'', ''status'']"

definition createErrorFromCreator :: "'x creator \<Rightarrow> 'x data \<Rightarrow> 'x exn + 'x jsobj" where
  "createErrorFromCreator creator data =
     (if is_function creator \<and> has_prototype creator
      then construct creator data
      else call creator data)"

text \<open>
  The seeker loop of \<^verbatim>\<open>create\<close>: \<open>Some r\<close> when the loop body returns or throws \<open>r\<close>, \<open>None\<close>
  when the loop runs to its end.
\<close>

fun create_loop ::
  "('c, 'w, 'x) registry \<Rightarrow> 'x data \<Rightarrow> string list \<Rightarrow> ('x exn + 'x jsobj) option" where
  "create_loop st data [] = None"
| "create_loop st data (seeker # rest) =
     (case seeker_key data seeker of
        Inl ex \<Rightarrow> Some (Inl ex)
      | Inr None \<Rightarrow> create_loop st data rest
      | Inr (Some key) \<Rightarrow>
          (case errorRegistry st key of
             Some creator \<Rightarrow> Some (createErrorFromCreator creator data)
           | None \<Rightarrow> create_loop st data rest))"

text \<open>
  The rest of \<^verbatim>\<open>create\<close> after the loop: the base creator, then
  \<^verbatim>\<open>new Error(data?.message ?? "Unknown error")\<close>.
\<close>

definition create_fallback :: "('c, 'w, 'x) registry \<Rightarrow> 'x data \<Rightarrow> 'x exn + 'x jsobj" where
  "create_fallback st data =
     (case baseError st of
        Some b \<Rightarrow> createErrorFromCreator b data
      | None \<Rightarrow>
          (case get_prop data ''message'' of
             Inl ex \<Rightarrow> Inl ex
           | Inr message \<Rightarrow>
               new_Error (if nullish message then VStr ''Unknown error'' else message)))"

definition create :: "('c, 'w, 'x) registry \<Rightarrow> 'x data \<Rightarrow> 'x exn + 'x jsobj" where
  "create st data =
     (case (if seekers st \<noteq> [] then create_loop st data (seekers st) else None) of
        Some r \<Rightarrow> r
      | None \<Rightarrow> create_fallback st data)"

text \<open>
  A call of \<^verbatim>\<open>createError\<close> as a step of the registry instance: its outcome and the registry
  after it. \<^verbatim>\<open>create\<close> assigns to none of the closure variables and calls no method of either
  map but \<^verbatim>\<open>get\<close>.
\<close>

definition createError ::
  "('c, 'w, 'x) registry \<Rightarrow> 'x data \<Rightarrow> ('x exn + 'x jsobj) \<times> ('c, 'w, 'x) registry" where
  "createError st data = (create st data, st)"

text \<open>The seeker loop of \<^verbatim>\<open>handleError\<close>, on the error's properties.\<close>

fun handle_loop ::
  "('c, 'w, 'x) registry \<Rightarrow> 'x jsobj \<Rightarrow> 'c list \<Rightarrow> 'w \<Rightarrow> string list
     \<Rightarrow> ('x exn + 'w) option" where
  "handle_loop st error ctx w [] = None"
| "handle_loop st error ctx w (seeker # rest) =
     (case seeker_key (Some (props error)) seeker of
        Inl ex \<Rightarrow> Some (Inl ex)
      | Inr None \<Rightarrow> handle_loop st error ctx w rest
      | Inr (Some key) \<Rightarrow>
          (case handlerRegistry st key of
             Some handler \<Rightarrow> Some (handler error ctx w)
           | None \<Rightarrow> handle_loop st error ctx w rest))"

text \<open>The constructor-name fallback; an undefined or empty name is falsy.\<close>

definition handle_fallback ::
  "('c, 'w, 'x) registry \<Rightarrow> 'x jsobj \<Rightarrow> 'c list \<Rightarrow> 'w \<Rightarrow> 'x exn + 'w" where
  "handle_fallback st error ctx w =
     (case ctor_name error of
        Inl ex \<Rightarrow> Inl ex
      | Inr None \<Rightarrow> Inr w
      | Inr (Some constructorName) \<Rightarrow>
          if constructorName \<noteq> [] then
            (case handlerRegistry st constructorName of
               Some handler \<Rightarrow> handler error ctx w
             | None \<Rightarrow> Inr w)
          else Inr w)"

definition handleError ::
  "('c, 'w, 'x) registry \<Rightarrow> 'x jsobj \<Rightarrow> 'c list \<Rightarrow> 'w \<Rightarrow> 'x exn + 'w" where
  "handleError st error ctx w =
     (case (if seekers st \<noteq> []
            then handle_loop st error ctx w (seekers st) else None) of
        Some r \<Rightarrow> r
      | None \<Rightarrow> handle_fallback st error ctx w)"

text \<open>
  \<^verbatim>\<open>registry.set(String(code), v)\<close> for each entry of \<^verbatim>\<open>Object.entries\<close>, in order; \<^verbatim>\<open>code\<close> is
  a property name, a string already.
\<close>

fun set_entries :: "(string \<rightharpoonup> 'a) \<Rightarrow> (string \<times> 'a) list \<Rightarrow> (string \<rightharpoonup> 'a)" where
  "set_entries m [] = m"
| "set_entries m ((code, v) # rest) = set_entries (m(code \<mapsto> v)) rest"

text \<open>
  \<^verbatim>\<open>createErrorRegistry(config)\<close>; \<open>None\<close> is the omitted configuration. The seekers default
  when they are not provided or empty.
\<close>

definition createErrorRegistry ::
  "('c, 'w, 'x) config option \<Rightarrow> ('c, 'w, 'x) registry" where
  "createErrorRegistry config =
     \<lparr>seekers =
        (case config of
           None \<Rightarrow> defaultSeekers
         | Some c \<Rightarrow>
             (case cfg_seekers c of
                None \<Rightarrow> defaultSeekers
              | Some s \<Rightarrow> if length s > 0 then s else defaultSeekers)),
      baseError = (case config of None \<Rightarrow> None | Some c \<Rightarrow> cfg_baseError c),
      errorRegistry =
        set_entries Map.empty (case config of None \<Rightarrow> [] | Some c \<Rightarrow> cfg_errors c),
      handlerRegistry =
        set_entries Map.empty (case config of None \<Rightarrow> [] | Some c \<Rightarrow> cfg_handlers c)\<rparr>"

definition registerError ::
  "key \<Rightarrow> 'x creator \<Rightarrow> ('c, 'w, 'x) registry \<Rightarrow> ('c, 'w, 'x) registry" where
  "registerError key creator st =
     st\<lparr>errorRegistry := (errorRegistry st)(key_String key \<mapsto> creator)\<rparr>"

definition registerHandler ::
  "key \<Rightarrow> ('c, 'w, 'x) handler \<Rightarrow> ('c, 'w, 'x) registry \<Rightarrow> ('c, 'w, 'x) registry" where
  "registerHandler key fn st =
     st\<lparr>handlerRegistry := (handlerRegistry st)(key_String key \<mapsto> fn)\<rparr>"

section \<open>Removal operations\<close>

text \<open>
  Modelled from the spec: \<^verbatim>\<open>unregisterError\<close>, which the registry object of this version of
  \<^verbatim>\<open>createErrorRegistry\<close> does not return (the test suite and the changelog know it). The spec:
  "\<^verbatim>\<open>unregisterError(key)\<close> / \<^verbatim>\<open>unregisterHandler(key)\<close> remove a single entry if present",
  keys being normalised to strings as in \<^verbatim>\<open>registerError\<close>.
\<close>

definition unregisterError ::
  "key \<Rightarrow> ('c, 'w, 'x) registry \<Rightarrow> ('c, 'w, 'x) registry" where
  "unregisterError key st = st\<lparr>errorRegistry := (errorRegistry st)(key_String key := None)\<rparr>"

text \<open>
  Modelled from the spec: \<^verbatim>\<open>clear\<close>, which the registry object of this version of
  \<^verbatim>\<open>createErrorRegistry\<close> does not return (the test suite and the changelog know it). The spec:
  "\<^verbatim>\<open>clear()\<close> empties both mappings".
\<close>

definition clear :: "('c, 'w, 'x) registry \<Rightarrow> ('c, 'w, 'x) registry" where
  "clear st = st\<lparr>errorRegistry := Map.empty, handlerRegistry := Map.empty\<rparr>"

section \<open>Creators and handlers of the test suite\<close>

text \<open>
  The classes of \<^verbatim>\<open>errorRegistry.test.ts\<close> have the shape
  \<^verbatim>\<open>class N extends Error { constructor(data) { super(data.message); this.name = 'N' } }\<close>;
  the fixture reads the message with \<^verbatim>\<open>data?.message\<close>, so that it also accepts a null
  record. \<open>named_error\<close> is the instance it makes for a string message. Called without
  \<^verbatim>\<open>new\<close>, a class throws a TypeError.
\<close>

definition named_error :: "string \<Rightarrow> string \<Rightarrow> 'x jsobj" where
  "named_error name message =
     \<lparr>props = [''message'' \<mapsto> Inr (VStr message), ''name'' \<mapsto> Inr (VStr name)],
      ctor_name = Inr (Some name)\<rparr>"

definition new_named_error :: "string \<Rightarrow> 'x data \<Rightarrow> 'x exn + 'x jsobj" where
  "new_named_error name data =
     (case get_prop data ''message'' of
        Inl ex \<Rightarrow> Inl ex
      | Inr message \<Rightarrow>
          (case new_Error message of
             Inl ex \<Rightarrow> Inl ex
           | Inr e \<Rightarrow>
               Inr (e\<lparr>props := (props e)(''name'' \<mapsto> Inr (VStr name)), ctor_name := Inr (Some name)\<rparr>)))"

definition error_class :: "string \<Rightarrow> string creator" where
  "error_class name =
     \<lparr>is_function = True, has_prototype = True,
      construct = new_named_error name,
      call = (\<lambda>data. Inl TypeError)\<rparr>"

text \<open>
  \<^verbatim>\<open>class N extends Error { constructor(data) { throw msg } }\<close>: a class whose constructor
  throws.
\<close>

definition throwing_class :: "string \<Rightarrow> string creator" where
  "throwing_class msg =
     \<lparr>is_function = True, has_prototype = True,
      construct = (\<lambda>data. Inl (Thrown msg)),
      call = (\<lambda>data. Inl TypeError)\<rparr>"

text \<open>
  An arrow function \<^verbatim>\<open>(data) => new N(data)\<close> has no \<^verbatim>\<open>prototype\<close> and is not a constructor;
  \<^verbatim>\<open>(data) => { throw msg }\<close> throws what it is given.
\<close>

definition arrow_factory :: "string \<Rightarrow> string creator" where
  "arrow_factory name =
     \<lparr>is_function = True, has_prototype = False,
      construct = (\<lambda>data. Inl TypeError),
      call = new_named_error name\<rparr>"

definition throwing_factory :: "string \<Rightarrow> string creator" where
  "throwing_factory msg =
     \<lparr>is_function = True, has_prototype = False,
      construct = (\<lambda>data. Inl TypeError),
      call = (\<lambda>data. Inl (Thrown msg))\<rparr>"

text \<open>A handler that appends its tag and the context it received to a log.\<close>

definition log_handler ::
  "string \<Rightarrow> (string val, (string \<times> string val list) list, string) handler" where
  "log_handler tag error ctx w = Inr (w @ [(tag, ctx)])"

section \<open>The seeker loops\<close>

text \<open>
  A seeker misses when its value reads as null or undefined, or when the key of its value
  has no entry. The loops pass over a prefix of misses and stop at the first seeker that
  hits or throws.
\<close>

lemma create_loop_skip:
  "\<forall>t\<in>set pre. seeker_key d t = Inr None
       \<or> (\<exists>k. seeker_key d t = Inr (Some k) \<and> errorRegistry st k = None)
   \<Longrightarrow> create_loop st d (pre @ post) = create_loop st d post"
  by (induction pre) auto

lemma create_all_miss:
  assumes "\<forall>t\<in>set (seekers st). seeker_key d t = Inr None
       \<or> (\<exists>k. seeker_key d t = Inr (Some k) \<and> errorRegistry st k = None)"
  shows "create st d = create_fallback st d"
  using create_loop_skip [OF assms, of "[]"] by (simp add: create_def)

lemma create_first_hit:
  assumes "seekers st = pre @ s # post"
    and "\<forall>t\<in>set pre. seeker_key d t = Inr None
       \<or> (\<exists>k. seeker_key d t = Inr (Some k) \<and> errorRegistry st k = None)"
    and "seeker_key d s = Inr (Some k)"
    and "errorRegistry st k = Some c"
  shows "create st d = createErrorFromCreator c d"
  using assms(1,3,4) create_loop_skip [OF assms(2), of "s # post"]
  by (simp add: create_def)

lemma create_first_throw:
  assumes "seekers st = pre @ s # post"
    and "\<forall>t\<in>set pre. seeker_key d t = Inr None
       \<or> (\<exists>k. seeker_key d t = Inr (Some k) \<and> errorRegistry st k = None)"
    and "seeker_key d s = Inl ex"
  shows "create st d = Inl ex"
  using assms(1,3) create_loop_skip [OF assms(2), of "s # post"]
  by (simp add: create_def)

lemma create_loop_result:
  "create_loop st d ss = Some r \<Longrightarrow>
   \<exists>s\<in>set ss. (\<exists>ex. seeker_key d s = Inl ex \<and> r = Inl ex)
       \<or> (\<exists>k c. seeker_key d s = Inr (Some k) \<and> errorRegistry st k = Some c
             \<and> r = createErrorFromCreator c d)"
  by (induction ss) (auto split: sum.splits option.splits)

lemma create_cases:
  "create st d = create_fallback st d
   \<or> (\<exists>s\<in>set (seekers st). (\<exists>ex. seeker_key d s = Inl ex \<and> create st d = Inl ex)
       \<or> (\<exists>k c. seeker_key d s = Inr (Some k) \<and> errorRegistry st k = Some c
             \<and> create st d = createErrorFromCreator c d))"
proof (cases "create_loop st d (seekers st)")
  case None
  then show ?thesis by (simp add: create_def)
next
  case (Some r)
  then have "seekers st \<noteq> []" by auto
  with Some have "create st d = r" by (simp add: create_def)
  with create_loop_result [OF Some] show ?thesis by auto
qed

lemma handle_loop_skip:
  "\<forall>t\<in>set pre. seeker_key (Some (props e)) t = Inr None
       \<or> (\<exists>k. seeker_key (Some (props e)) t = Inr (Some k) \<and> handlerRegistry st k = None)
   \<Longrightarrow> handle_loop st e ctx w (pre @ post) = handle_loop st e ctx w post"
  by (induction pre) auto

lemma handle_all_miss:
  assumes "\<forall>t\<in>set (seekers st). seeker_key (Some (props e)) t = Inr None
       \<or> (\<exists>k. seeker_key (Some (props e)) t = Inr (Some k) \<and> handlerRegistry st k = None)"
  shows "handleError st e ctx w = handle_fallback st e ctx w"
  using handle_loop_skip [OF assms, where post = "[]" and ctx = ctx and w = w]
  by (simp add: handleError_def)

lemma handle_first_hit:
  assumes "seekers st = pre @ s # post"
    and "\<forall>t\<in>set pre. seeker_key (Some (props e)) t = Inr None
       \<or> (\<exists>k. seeker_key (Some (props e)) t = Inr (Some k) \<and> handlerRegistry st k = None)"
    and "seeker_key (Some (props e)) s = Inr (Some k)"
    and "handlerRegistry st k = Some h"
  shows "handleError st e ctx w = h e ctx w"
  using assms(1,3,4)
    handle_loop_skip [OF assms(2), where post = "s # post" and ctx = ctx and w = w]
  by (simp add: handleError_def)

lemma handle_first_throw:
  assumes "seekers st = pre @ s # post"
    and "\<forall>t\<in>set pre. seeker_key (Some (props e)) t = Inr None
       \<or> (\<exists>k. seeker_key (Some (props e)) t = Inr (Some k) \<and> handlerRegistry st k = None)"
    and "seeker_key (Some (props e)) s = Inl ex"
  shows "handleError st e ctx w = Inl ex"
  using assms(1,3)
    handle_loop_skip [OF assms(2), where post = "s # post" and ctx = ctx and w = w]
  by (simp add: handleError_def)

text \<open>Evaluation of the fixtures on a record with a string message.\<close>

lemma new_named_error_string:
  "get_prop d ''message'' = Inr (VStr m) \<Longrightarrow> new_named_error name d = Inr (named_error name m)"
  by (simp add: new_named_error_def named_error_def Error_object_def)

text \<open>The registry maps after construction: a later entry of the configuration wins.\<close>

lemma set_entries_map_of:
  "set_entries m xs k = (case map_of (rev xs) k of Some v \<Rightarrow> Some v | None \<Rightarrow> m k)"
proof (induction xs arbitrary: m)
  case Nil
  then show ?case by simp
next
  case (Cons x xs)
  obtain code v where x: "x = (code, v)" by (cases x)
  have "set_entries m (x # xs) k = set_entries (m(code \<mapsto> v)) xs k"
    by (simp add: x)
  also have "\<dots> = (case map_of (rev xs) k of Some v' \<Rightarrow> Some v' | None \<Rightarrow> (m(code \<mapsto> v)) k)"
    by (rule Cons.IH)
  also have "\<dots> = (case map_of (rev (x # xs)) k of Some v' \<Rightarrow> Some v' | None \<Rightarrow> m k)"
    by (simp add: x map_add_def split: option.splits)
  finally show ?case .
qed

section \<open>Claims\<close>

text \<open>
  C1 as stated fails. With the default seekers and a creator under \<^verbatim>\<open>"ERROR1"\<close>, the data
  \<^verbatim>\<open>{code: "ERROR1", status: Object.create(null), message: "Test"}\<close> resolves to \<^verbatim>\<open>"ERROR1"\<close>;
  after \<^verbatim>\<open>clear()\<close> the seeker loop of \<^verbatim>\<open>create\<close> goes on to \<^verbatim>\<open>status\<close>, whose conversion to a
  string throws a TypeError, where the claim wants the fallback chain.
\<close>

theorem clear_fallthrough_counterexample:
  "create (createErrorRegistry (Some
       \<lparr>cfg_seekers = None, cfg_baseError = None,
        cfg_errors = [(''ERROR1'', error_class ''Error1'')],
        cfg_handlers = [(''ERROR1'', log_handler ''handler1'')]\<rparr>))
     (Some [''code'' \<mapsto> Inr (VStr ''ERROR1''), ''status'' \<mapsto> Inr (VObject (Inl TypeError)),
            ''message'' \<mapsto> Inr (VStr ''Test'')])
   = Inr (named_error ''Error1'' ''Test'')
   \<and> create (clear (createErrorRegistry (Some
       \<lparr>cfg_seekers = None, cfg_baseError = None,
        cfg_errors = [(''ERROR1'', error_class ''Error1'')],
        cfg_handlers = [(''ERROR1'', log_handler ''handler1'')]\<rparr>)))
     (Some [''code'' \<mapsto> Inr (VStr ''ERROR1''), ''status'' \<mapsto> Inr (VObject (Inl TypeError)),
            ''message'' \<mapsto> Inr (VStr ''Test'')])
   = Inl TypeError
   \<and> create_fallback (createErrorRegistry (Some
       \<lparr>cfg_seekers = None, cfg_baseError = None,
        cfg_errors = [(''ERROR1'', error_class ''Error1'')],
        cfg_handlers = [(''ERROR1'', log_handler ''handler1'')]\<rparr>))
     (Some [''code'' \<mapsto> Inr (VStr ''ERROR1''), ''status'' \<mapsto> Inr (VObject (Inl TypeError)),
            ''message'' \<mapsto> Inr (VStr ''Test'')])
   = Inr (Error_object ''Test'')"
  by (simp add: create_def create_fallback_def createErrorRegistry_def clear_def
      defaultSeekers_def seeker_key_def get_prop_def createErrorFromCreator_def error_class_def
      new_named_error_def named_error_def Error_object_def)

text \<open>
  C1, amended. After \<^verbatim>\<open>clear()\<close> both mappings are empty, and no creator or handler registered
  before is used: on data all of whose seeker values can be read and converted to strings,
  \<^verbatim>\<open>createError\<close> takes the fallback chain (the configured \<^verbatim>\<open>baseError\<close>, else the generic
  Error), and on such an error \<^verbatim>\<open>handleError\<close> invokes no handler and completes with the world
  unchanged; when reading or converting a seeker value (or reading the constructor name of
  the error) throws, that exception comes out.
\<close>

theorem clear_empties_both_mappings:
  "errorRegistry (clear st) = Map.empty \<and> handlerRegistry (clear st) = Map.empty
   \<and> ((\<forall>s\<in>set (seekers st). \<exists>r. seeker_key d s = Inr r)
        \<longrightarrow> create (clear st) d = create_fallback st d)
   \<and> (seekers st = pre @ s # post \<and> (\<forall>t\<in>set pre. \<exists>r. seeker_key d t = Inr r)
        \<and> seeker_key d s = Inl ex
        \<longrightarrow> create (clear st) d = Inl ex)
   \<and> ((\<forall>s\<in>set (seekers st). \<exists>r. seeker_key (Some (props e)) s = Inr r)
        \<and> ctor_name e = Inr n
        \<longrightarrow> handleError (clear st) e ctx w = Inr w)
   \<and> (seekers st = pre @ s # post \<and> (\<forall>t\<in>set pre. \<exists>r. seeker_key (Some (props e)) t = Inr r)
        \<and> seeker_key (Some (props e)) s = Inl ex'
        \<longrightarrow> handleError (clear st) e ctx w = Inl ex')
   \<and> ((\<forall>s\<in>set (seekers st). \<exists>r. seeker_key (Some (props e)) s = Inr r)
        \<and> ctor_name e = Inl ex'
        \<longrightarrow> handleError (clear st) e ctx w = Inl ex')"
proof -
  have sk: "seekers (clear st) = seekers st"
    by (simp add: clear_def)
  have miss: "seeker_key x t = Inr None
       \<or> (\<exists>k. seeker_key x t = Inr (Some k) \<and> errorRegistry (clear st) k = None)"
    if "\<exists>r. seeker_key x t = Inr r" for x t
    using that by (cases "seeker_key x t") (auto simp: clear_def)
  have missh: "seeker_key x t = Inr None
       \<or> (\<exists>k. seeker_key x t = Inr (Some k) \<and> handlerRegistry (clear st) k = None)"
    if "\<exists>r. seeker_key x t = Inr r" for x t
    using that by (cases "seeker_key x t") (auto simp: clear_def)
  have f: "create_fallback (clear st) d = create_fallback st d"
    by (simp add: create_fallback_def clear_def)
  have g: "handle_fallback (clear st) e ctx w = Inr w" if "ctor_name e = Inr n"
    using that by (simp add: handle_fallback_def clear_def split: option.splits)
  have g': "handle_fallback (clear st) e ctx w = Inl ex'" if "ctor_name e = Inl ex'"
    using that by (simp add: handle_fallback_def)
  have c1: "create (clear st) d = create_fallback st d"
    if "\<forall>s\<in>set (seekers st). \<exists>r. seeker_key d s = Inr r"
  proof -
    from that miss have "\<forall>t\<in>set (seekers (clear st)). seeker_key d t = Inr None
       \<or> (\<exists>k. seeker_key d t = Inr (Some k) \<and> errorRegistry (clear st) k = None)"
      unfolding sk by blast
    from create_all_miss [OF this] f show ?thesis by simp
  qed
  have c2: "create (clear st) d = Inl ex"
    if "seekers st = pre @ s # post" "\<forall>t\<in>set pre. \<exists>r. seeker_key d t = Inr r"
      "seeker_key d s = Inl ex"
  proof -
    from that(2) miss have "\<forall>t\<in>set pre. seeker_key d t = Inr None
       \<or> (\<exists>k. seeker_key d t = Inr (Some k) \<and> errorRegistry (clear st) k = None)"
      by blast
    from create_first_throw [OF _ this that(3), of post] that(1) sk show ?thesis by simp
  qed
  have hf: "handleError (clear st) e ctx w = handle_fallback (clear st) e ctx w"
    if "\<forall>s\<in>set (seekers st). \<exists>r. seeker_key (Some (props e)) s = Inr r"
  proof -
    from that missh have "\<forall>t\<in>set (seekers (clear st)). seeker_key (Some (props e)) t = Inr None
       \<or> (\<exists>k. seeker_key (Some (props e)) t = Inr (Some k) \<and> handlerRegistry (clear st) k = None)"
      unfolding sk by blast
    from handle_all_miss [OF this] show ?thesis .
  qed
  have h1: "handleError (clear st) e ctx w = Inr w"
    if "\<forall>s\<in>set (seekers st). \<exists>r. seeker_key (Some (props e)) s = Inr r" "ctor_name e = Inr n"
    using hf [OF that(1)] g [OF that(2)] by simp
  have h2: "handleError (clear st) e ctx w = Inl ex'"
    if "seekers st = pre @ s # post" "\<forall>t\<in>set pre. \<exists>r. seeker_key (Some (props e)) t = Inr r"
      "seeker_key (Some (props e)) s = Inl ex'"
  proof -
    from that(2) missh have "\<forall>t\<in>set pre. seeker_key (Some (props e)) t = Inr None
       \<or> (\<exists>k. seeker_key (Some (props e)) t = Inr (Some k) \<and> handlerRegistry (clear st) k = None)"
      by blast
    from handle_first_throw [OF _ this that(3), of post] that(1) sk show ?thesis by simp
  qed
  have h3: "handleError (clear st) e ctx w = Inl ex'"
    if "\<forall>s\<in>set (seekers st). \<exists>r. seeker_key (Some (props e)) s = Inr r" "ctor_name e = Inl ex'"
    using hf [OF that(1)] g' [OF that(2)] by simp
  have m: "errorRegistry (clear st) = Map.empty \<and> handlerRegistry (clear st) = Map.empty"
    by (simp add: clear_def)
  show ?thesis using m c1 c2 h1 h2 h3 by blast
qed

theorem clear_empties_both_mappings_witness:
  "create (clear (createErrorRegistry (Some
       \<lparr>cfg_seekers = None, cfg_baseError = None,
        cfg_errors = [(''ERROR1'', error_class ''Error1''), (''ERROR2'', error_class ''Error2'')],
        cfg_handlers = [(''ERROR1'', log_handler ''handler1''), (''ERROR2'', log_handler ''handler2'')]\<rparr>)))
     (Some [''code'' \<mapsto> Inr (VStr ''ERROR1''), ''message'' \<mapsto> Inr (VStr ''Test'')])
   = Inr (Error_object ''Test'')
   \<and> handleError (clear (createErrorRegistry (Some
       \<lparr>cfg_seekers = None, cfg_baseError = None,
        cfg_errors = [(''ERROR1'', error_class ''Error1''), (''ERROR2'', error_class ''Error2'')],
        cfg_handlers = [(''ERROR1'', log_handler ''handler1''), (''ERROR2'', log_handler ''handler2'')]\<rparr>)))
     \<lparr>props = [''code'' \<mapsto> Inr (VStr ''ERROR1''), ''message'' \<mapsto> Inr (VStr ''Test'')],
      ctor_name = Inr (Some ''Object'')\<rparr>
     [] [] = Inr []
   \<and> create (clear (createErrorRegistry (Some
       \<lparr>cfg_seekers = None, cfg_baseError = None,
        cfg_errors = [(''ERROR1'', error_class ''Error1''), (''ERROR2'', error_class ''Error2'')],
        cfg_handlers = [(''ERROR1'', log_handler ''handler1''), (''ERROR2'', log_handler ''handler2'')]\<rparr>)))
     (Some [''code'' \<mapsto> Inr (VStr ''ERROR1''), ''status'' \<mapsto> Inl (Thrown ''getter'')])
   = Inl (Thrown ''getter'')"
proof -
  let ?st = "createErrorRegistry (Some
       \<lparr>cfg_seekers = None, cfg_baseError = None,
        cfg_errors = [(''ERROR1'', error_class ''Error1''), (''ERROR2'', error_class ''Error2'')],
        cfg_handlers = [(''ERROR1'', log_handler ''handler1''), (''ERROR2'', log_handler ''handler2'')]\<rparr>)"
  have 1: "create (clear ?st)
       (Some [''code'' \<mapsto> Inr (VStr ''ERROR1''), ''message'' \<mapsto> Inr (VStr ''Test'')])
     = Inr (Error_object ''Test'')"
    using clear_empties_both_mappings [of ?st
        "Some [''code'' \<mapsto> Inr (VStr ''ERROR1''), ''message'' \<mapsto> Inr (VStr ''Test'')]"]
    by (simp add: create_fallback_def createErrorRegistry_def defaultSeekers_def
        seeker_key_def get_prop_def)
  have 2: "handleError (clear ?st)
       \<lparr>props = [''code'' \<mapsto> Inr (VStr ''ERROR1''), ''message'' \<mapsto> Inr (VStr ''Test'')],
        ctor_name = Inr (Some ''Object'')\<rparr> [] [] = Inr []"
    using clear_empties_both_mappings [of ?st _ _ _ _ _
        "\<lparr>props = [''code'' \<mapsto> Inr (VStr ''ERROR1''), ''message'' \<mapsto> Inr (VStr ''Test'')],
          ctor_name = Inr (Some ''Object'')\<rparr>" "Some ''Object''" "[]" "[]"]
    by (simp add: createErrorRegistry_def defaultSeekers_def seeker_key_def get_prop_def)
  have 3: "create (clear ?st)
       (Some [''code'' \<mapsto> Inr (VStr ''ERROR1''), ''status'' \<mapsto> Inl (Thrown ''getter'')])
     = Inl (Thrown ''getter'')"
    using clear_empties_both_mappings [of ?st
        "Some [''code'' \<mapsto> Inr (VStr ''ERROR1''), ''status'' \<mapsto> Inl (Thrown ''getter'')]"
        "[''code'']" "''status''" "[]" "Thrown ''getter''"]
    by (simp add: createErrorRegistry_def defaultSeekers_def seeker_key_def get_prop_def)
  show ?thesis using 1 2 3 by blast
qed

text \<open>
  C2 as stated fails. With the default seekers and creators under \<^verbatim>\<open>"K1"\<close> and \<^verbatim>\<open>"404"\<close>, the
  data \<^verbatim>\<open>{code: "K1", status: 404, message: "gone"}\<close> resolves to \<^verbatim>\<open>"K1"\<close>; after
  \<^verbatim>\<open>unregisterError("K1")\<close> the seeker loop of \<^verbatim>\<open>create\<close> goes on to \<^verbatim>\<open>status\<close> and returns an
  instance made by the creator of \<^verbatim>\<open>"404"\<close>, where the claim wants the fallback chain.
\<close>

theorem unregisterError_later_seeker_counterexample:
  "create (createErrorRegistry (Some
       \<lparr>cfg_seekers = None, cfg_baseError = None,
        cfg_errors = [(''K1'', error_class ''FirstError''), (''404'', error_class ''NotFoundError'')],
        cfg_handlers = [(''404'', log_handler ''h'')]\<rparr>))
     (Some [''code'' \<mapsto> Inr (VStr ''K1''), ''status'' \<mapsto> Inr (VNumber ''404''),
            ''message'' \<mapsto> Inr (VStr ''gone'')])
   = Inr (named_error ''FirstError'' ''gone'')
   \<and> create (unregisterError (KString ''K1'') (createErrorRegistry (Some
       \<lparr>cfg_seekers = None, cfg_baseError = None,
        cfg_errors = [(''K1'', error_class ''FirstError''), (''404'', error_class ''NotFoundError'')],
        cfg_handlers = [(''404'', log_handler ''h'')]\<rparr>)))
     (Some [''code'' \<mapsto> Inr (VStr ''K1''), ''status'' \<mapsto> Inr (VNumber ''404''),
            ''message'' \<mapsto> Inr (VStr ''gone'')])
   = Inr (named_error ''NotFoundError'' ''gone'')
   \<and> create_fallback (createErrorRegistry (Some
       \<lparr>cfg_seekers = None, cfg_baseError = None,
        cfg_errors = [(''K1'', error_class ''FirstError''), (''404'', error_class ''NotFoundError'')],
        cfg_handlers = [(''404'', log_handler ''h'')]\<rparr>))
     (Some [''code'' \<mapsto> Inr (VStr ''K1''), ''status'' \<mapsto> Inr (VNumber ''404''),
            ''message'' \<mapsto> Inr (VStr ''gone'')])
   = Inr (Error_object ''gone'')
   \<and> (named_error ''NotFoundError'' ''gone'' :: string jsobj) \<noteq> Error_object ''gone''"
  by (simp add: create_def create_fallback_def createErrorRegistry_def unregisterError_def
      defaultSeekers_def seeker_key_def get_prop_def createErrorFromCreator_def error_class_def
      new_named_error_def named_error_def Error_object_def)

text \<open>
  C2, amended. After \<^verbatim>\<open>unregisterError(k)\<close> the key \<^verbatim>\<open>k\<close> has no creator, and \<^verbatim>\<open>createError\<close>
  passes over every seeker whose value is null, resolves to \<^verbatim>\<open>k\<close> or resolves to a key without
  a creator: it returns what the creator of the first seeker with another, still registered
  key makes, throws what reading or converting that first other seeker value throws, and
  falls through to \<^verbatim>\<open>baseError\<close> if configured, else to the generic Error, when there is no
  such seeker. Whatever the data, the result is one of these three.
\<close>

theorem unregisterError_removes_only_its_key:
  "errorRegistry (unregisterError k st) (key_String k) = None
   \<and> (seekers st = pre @ s # post
       \<and> (\<forall>t\<in>set pre. seeker_key d t = Inr None
             \<or> seeker_key d t = Inr (Some (key_String k))
             \<or> (\<exists>k'. seeker_key d t = Inr (Some k') \<and> errorRegistry st k' = None))
       \<and> seeker_key d s = Inr (Some k'') \<and> k'' \<noteq> key_String k \<and> errorRegistry st k'' = Some c
      \<longrightarrow> create (unregisterError k st) d = createErrorFromCreator c d)
   \<and> ((\<forall>t\<in>set (seekers st). seeker_key d t = Inr None
             \<or> seeker_key d t = Inr (Some (key_String k))
             \<or> (\<exists>k'. seeker_key d t = Inr (Some k') \<and> errorRegistry st k' = None))
      \<longrightarrow> create (unregisterError k st) d = create_fallback st d)
   \<and> (seekers st = pre @ s # post
       \<and> (\<forall>t\<in>set pre. seeker_key d t = Inr None
             \<or> seeker_key d t = Inr (Some (key_String k))
             \<or> (\<exists>k'. seeker_key d t = Inr (Some k') \<and> errorRegistry st k' = None))
       \<and> seeker_key d s = Inl ex
      \<longrightarrow> create (unregisterError k st) d = Inl ex)
   \<and> (create (unregisterError k st) d = create_fallback st d
       \<or> (\<exists>s\<in>set (seekers st).
            (\<exists>ex. seeker_key d s = Inl ex \<and> create (unregisterError k st) d = Inl ex)
            \<or> (\<exists>k' c. seeker_key d s = Inr (Some k') \<and> k' \<noteq> key_String k
                  \<and> errorRegistry st k' = Some c
                  \<and> create (unregisterError k st) d = createErrorFromCreator c d)))"
proof -
  let ?st = "unregisterError k st"
  have sk: "seekers ?st = seekers st"
    by (simp add: unregisterError_def)
  have reg: "errorRegistry ?st k' = (if k' = key_String k then None else errorRegistry st k')" for k'
    by (simp add: unregisterError_def)
  have f: "create_fallback ?st d = create_fallback st d"
    by (simp add: create_fallback_def unregisterError_def)
  have miss: "seeker_key d t = Inr None
       \<or> (\<exists>k'. seeker_key d t = Inr (Some k') \<and> errorRegistry ?st k' = None)"
    if "seeker_key d t = Inr None
             \<or> seeker_key d t = Inr (Some (key_String k))
             \<or> (\<exists>k'. seeker_key d t = Inr (Some k') \<and> errorRegistry st k' = None)" for t
    using that reg by auto
  have a: "create ?st d = createErrorFromCreator c d"
    if "seekers st = pre @ s # post"
      "\<forall>t\<in>set pre. seeker_key d t = Inr None
             \<or> seeker_key d t = Inr (Some (key_String k))
             \<or> (\<exists>k'. seeker_key d t = Inr (Some k') \<and> errorRegistry st k' = None)"
      "seeker_key d s = Inr (Some k'')" "k'' \<noteq> key_String k" "errorRegistry st k'' = Some c"
  proof -
    from that(2) miss have "\<forall>t\<in>set pre. seeker_key d t = Inr None
       \<or> (\<exists>k'. seeker_key d t = Inr (Some k') \<and> errorRegistry ?st k' = None)"
      by blast
    moreover have "errorRegistry ?st k'' = Some c" using that(4,5) reg by simp
    ultimately show ?thesis
      using create_first_hit [of ?st pre s post d k'' c] that(1,3) sk by simp
  qed
  have b: "create ?st d = create_fallback st d"
    if "\<forall>t\<in>set (seekers st). seeker_key d t = Inr None
             \<or> seeker_key d t = Inr (Some (key_String k))
             \<or> (\<exists>k'. seeker_key d t = Inr (Some k') \<and> errorRegistry st k' = None)"
  proof -
    from that miss have "\<forall>t\<in>set (seekers ?st). seeker_key d t = Inr None
       \<or> (\<exists>k'. seeker_key d t = Inr (Some k') \<and> errorRegistry ?st k' = None)"
      unfolding sk by blast
    from create_all_miss [OF this] f show ?thesis by simp
  qed
  have c: "create ?st d = Inl ex"
    if "seekers st = pre @ s # post"
      "\<forall>t\<in>set pre. seeker_key d t = Inr None
             \<or> seeker_key d t = Inr (Some (key_String k))
             \<or> (\<exists>k'. seeker_key d t = Inr (Some k') \<and> errorRegistry st k' = None)"
      "seeker_key d s = Inl ex"
  proof -
    from that(2) miss have "\<forall>t\<in>set pre. seeker_key d t = Inr None
       \<or> (\<exists>k'. seeker_key d t = Inr (Some k') \<and> errorRegistry ?st k' = None)"
      by blast
    from create_first_throw [OF _ this that(3), of post] that(1) sk show ?thesis by simp
  qed
  have e: "create ?st d = create_fallback st d
       \<or> (\<exists>s\<in>set (seekers st).
            (\<exists>ex. seeker_key d s = Inl ex \<and> create ?st d = Inl ex)
            \<or> (\<exists>k' c. seeker_key d s = Inr (Some k') \<and> k' \<noteq> key_String k
                  \<and> errorRegistry st k' = Some c
                  \<and> create ?st d = createErrorFromCreator c d))"
  proof -
    have r: "k' \<noteq> key_String k \<and> errorRegistry st k' = Some c"
      if "errorRegistry ?st k' = Some c" for k' c
      using that reg [of k'] by (auto split: if_splits)
    from create_cases [of ?st d] show ?thesis
      unfolding sk f using r by blast
  qed
  have z: "errorRegistry ?st (key_String k) = None" using reg by simp
  show ?thesis using z a b c e by blast
qed

theorem unregisterError_removes_only_its_key_witness:
  "create (unregisterError (KString ''TEST'') (createErrorRegistry (Some
       \<lparr>cfg_seekers = None, cfg_baseError = None,
        cfg_errors = [(''TEST'', error_class ''TestError''), (''404'', error_class ''NotFoundError'')],
        cfg_handlers = [(''TEST'', log_handler ''h'')]\<rparr>)))
     (Some [''code'' \<mapsto> Inr (VStr ''TEST''), ''message'' \<mapsto> Inr (VStr ''Test'')])
   = Inr (Error_object ''Test'')
   \<and> create (unregisterError (KString ''TEST'') (createErrorRegistry (Some
       \<lparr>cfg_seekers = None, cfg_baseError = None,
        cfg_errors = [(''TEST'', error_class ''TestError''), (''404'', error_class ''NotFoundError'')],
        cfg_handlers = [(''TEST'', log_handler ''h'')]\<rparr>)))
     (Some [''code'' \<mapsto> Inr (VStr ''TEST''), ''status'' \<mapsto> Inr (VNumber ''404''),
            ''message'' \<mapsto> Inr (VStr ''Test'')])
   = Inr (named_error ''NotFoundError'' ''Test'')
   \<and> create (unregisterError (KString ''TEST'') (createErrorRegistry (Some
       \<lparr>cfg_seekers = None, cfg_baseError = None,
        cfg_errors = [(''TEST'', error_class ''TestError''), (''404'', error_class ''NotFoundError'')],
        cfg_handlers = [(''TEST'', log_handler ''h'')]\<rparr>)))
     (Some [''code'' \<mapsto> Inr (VStr ''TEST''), ''status'' \<mapsto> Inr (VObject (Inl TypeError))])
   = Inl TypeError"
proof -
  let ?st = "createErrorRegistry (Some
       \<lparr>cfg_seekers = None, cfg_baseError = None,
        cfg_errors = [(''TEST'', error_class ''TestError''), (''404'', error_class ''NotFoundError'')],
        cfg_handlers = [(''TEST'', log_handler ''h'')]\<rparr>)"
  have st: "seekers ?st = [''code'', ''status'']" "baseError ?st = None"
    "errorRegistry ?st = [''TEST'' \<mapsto> error_class ''TestError'', ''404'' \<mapsto> error_class ''NotFoundError'']"
    by (simp_all add: createErrorRegistry_def defaultSeekers_def)
  have 1: "create (unregisterError (KString ''TEST'') ?st)
       (Some [''code'' \<mapsto> Inr (VStr ''TEST''), ''message'' \<mapsto> Inr (VStr ''Test'')])
     = Inr (Error_object ''Test'')"
    using unregisterError_removes_only_its_key [of "KString ''TEST''" ?st _ _ _
        "Some [''code'' \<mapsto> Inr (VStr ''TEST''), ''message'' \<mapsto> Inr (VStr ''Test'')]"] st
    by (simp add: create_fallback_def seeker_key_def get_prop_def)
  have 2: "create (unregisterError (KString ''TEST'') ?st)
       (Some [''code'' \<mapsto> Inr (VStr ''TEST''), ''status'' \<mapsto> Inr (VNumber ''404''),
              ''message'' \<mapsto> Inr (VStr ''Test'')])
     = Inr (named_error ''NotFoundError'' ''Test'')"
    using unregisterError_removes_only_its_key [of "KString ''TEST''" ?st "[''code'']" "''status''" "[]"
        "Some [''code'' \<mapsto> Inr (VStr ''TEST''), ''status'' \<mapsto> Inr (VNumber ''404''),
               ''message'' \<mapsto> Inr (VStr ''Test'')]" "''404''" "error_class ''NotFoundError''"] st
    by (simp add: seeker_key_def get_prop_def createErrorFromCreator_def error_class_def
        new_named_error_string)
  have 3: "create (unregisterError (KString ''TEST'') ?st)
       (Some [''code'' \<mapsto> Inr (VStr ''TEST''), ''status'' \<mapsto> Inr (VObject (Inl TypeError))])
     = Inl TypeError"
    using unregisterError_removes_only_its_key [of "KString ''TEST''" ?st "[''code'']" "''status''" "[]"
        "Some [''code'' \<mapsto> Inr (VStr ''TEST''), ''status'' \<mapsto> Inr (VObject (Inl TypeError))]"
        _ _ TypeError] st
    by (simp add: seeker_key_def get_prop_def)
  show ?thesis using 1 2 3 by blast
qed

text \<open>
  C3 as stated fails. With seekers \<^verbatim>\<open>["a", "b"]\<close>, a creator under \<^verbatim>\<open>"K2"\<close> only and the data
  \<^verbatim>\<open>{a: "K1", b: "K2", message: "m"}\<close>, the first non-null seeker value yields the
  unregistered key \<^verbatim>\<open>"K1"\<close>; \<^verbatim>\<open>create\<close> still consults \<^verbatim>\<open>b\<close> and returns an instance made by the
  creator of \<^verbatim>\<open>"K2"\<close>, not the generic Error of the fallback chain.
\<close>

theorem positional_resolution_counterexample:
  "seeker_key (Some [''a'' \<mapsto> Inr (VStr ''K1''), ''b'' \<mapsto> Inr (VStr ''K2''),
                     ''message'' \<mapsto> Inr (VStr ''m'')]) ''a'' = (Inr (Some ''K1'') :: string exn + string option)
   \<and> errorRegistry (createErrorRegistry (Some
       \<lparr>cfg_seekers = Some [''a'', ''b''], cfg_baseError = None,
        cfg_errors = [(''K2'', error_class ''SecondError'')],
        cfg_handlers = [(''K2'', log_handler ''h'')]\<rparr>)) ''K1'' = None
   \<and> create (createErrorRegistry (Some
       \<lparr>cfg_seekers = Some [''a'', ''b''], cfg_baseError = None,
        cfg_errors = [(''K2'', error_class ''SecondError'')],
        cfg_handlers = [(''K2'', log_handler ''h'')]\<rparr>))
     (Some [''a'' \<mapsto> Inr (VStr ''K1''), ''b'' \<mapsto> Inr (VStr ''K2''),
            ''message'' \<mapsto> Inr (VStr ''m'')])
   = Inr (named_error ''SecondError'' ''m'')
   \<and> create_fallback (createErrorRegistry (Some
       \<lparr>cfg_seekers = Some [''a'', ''b''], cfg_baseError = None,
        cfg_errors = [(''K2'', error_class ''SecondError'')],
        cfg_handlers = [(''K2'', log_handler ''h'')]\<rparr>))
     (Some [''a'' \<mapsto> Inr (VStr ''K1''), ''b'' \<mapsto> Inr (VStr ''K2''),
            ''message'' \<mapsto> Inr (VStr ''m'')])
   = Inr (Error_object ''m'')
   \<and> (named_error ''SecondError'' ''m'' :: string jsobj) \<noteq> Error_object ''m''"
  by (simp add: create_def create_fallback_def createErrorRegistry_def
      seeker_key_def get_prop_def createErrorFromCreator_def error_class_def
      new_named_error_def named_error_def Error_object_def)

text \<open>
  C3, amended. Resolution scans on: when the first seeker with a non-null value yields a key
  that has no entry in the error-creator mapping, \<^verbatim>\<open>createError\<close> goes on through the later
  seekers in order and uses the creator of the first of them whose key is registered,
  whatever the seekers after that one hold; it takes the fallback chain only when no later
  seeker has a registered key, and throws what reading or converting a later seeker value
  throws when it meets that before a registered key.
\<close>

theorem create_scans_past_unregistered_key:
  "(seekers st = pre @ s # mid @ s' # post
      \<and> (\<forall>t\<in>set pre. seeker_key d t = Inr None)
      \<and> seeker_key d s = Inr (Some k) \<and> errorRegistry st k = None
      \<and> (\<forall>t\<in>set mid. seeker_key d t = Inr None
            \<or> (\<exists>k'. seeker_key d t = Inr (Some k') \<and> errorRegistry st k' = None))
      \<and> seeker_key d s' = Inr (Some k'') \<and> errorRegistry st k'' = Some c
    \<longrightarrow> create st d = createErrorFromCreator c d)
   \<and> (seekers st = pre @ s # post
      \<and> (\<forall>t\<in>set pre. seeker_key d t = Inr None)
      \<and> seeker_key d s = Inr (Some k) \<and> errorRegistry st k = None
      \<and> (\<forall>t\<in>set post. seeker_key d t = Inr None
            \<or> (\<exists>k'. seeker_key d t = Inr (Some k') \<and> errorRegistry st k' = None))
    \<longrightarrow> create st d = create_fallback st d)
   \<and> (seekers st = pre @ s # mid @ s' # post
      \<and> (\<forall>t\<in>set pre. seeker_key d t = Inr None)
      \<and> seeker_key d s = Inr (Some k) \<and> errorRegistry st k = None
      \<and> (\<forall>t\<in>set mid. seeker_key d t = Inr None
            \<or> (\<exists>k'. seeker_key d t = Inr (Some k') \<and> errorRegistry st k' = None))
      \<and> seeker_key d s' = Inl ex
    \<longrightarrow> create st d = Inl ex)"
proof -
  have prefix: "\<forall>t\<in>set (pre @ s # mid). seeker_key d t = Inr None
            \<or> (\<exists>k'. seeker_key d t = Inr (Some k') \<and> errorRegistry st k' = None)"
    if "\<forall>t\<in>set pre. seeker_key d t = Inr None"
      "seeker_key d s = Inr (Some k)" "errorRegistry st k = None"
      "\<forall>t\<in>set mid. seeker_key d t = Inr None
            \<or> (\<exists>k'. seeker_key d t = Inr (Some k') \<and> errorRegistry st k' = None)" for mid
    using that by auto
  have a: "create st d = createErrorFromCreator c d"
    if "seekers st = pre @ s # mid @ s' # post" "\<forall>t\<in>set pre. seeker_key d t = Inr None"
      "seeker_key d s = Inr (Some k)" "errorRegistry st k = None"
      "\<forall>t\<in>set mid. seeker_key d t = Inr None
            \<or> (\<exists>k'. seeker_key d t = Inr (Some k') \<and> errorRegistry st k' = None)"
      "seeker_key d s' = Inr (Some k'')" "errorRegistry st k'' = Some c"
    using create_first_hit [of st "pre @ s # mid" s' post d k'' c] prefix [OF that(2-5)] that(1,6,7)
    by simp
  have b: "create st d = create_fallback st d"
    if "seekers st = pre @ s # post" "\<forall>t\<in>set pre. seeker_key d t = Inr None"
      "seeker_key d s = Inr (Some k)" "errorRegistry st k = None"
      "\<forall>t\<in>set post. seeker_key d t = Inr None
            \<or> (\<exists>k'. seeker_key d t = Inr (Some k') \<and> errorRegistry st k' = None)"
    using create_all_miss [of st d] prefix [OF that(2-5)] that(1) by simp
  have c: "create st d = Inl ex"
    if "seekers st = pre @ s # mid @ s' # post" "\<forall>t\<in>set pre. seeker_key d t = Inr None"
      "seeker_key d s = Inr (Some k)" "errorRegistry st k = None"
      "\<forall>t\<in>set mid. seeker_key d t = Inr None
            \<or> (\<exists>k'. seeker_key d t = Inr (Some k') \<and> errorRegistry st k' = None)"
      "seeker_key d s' = Inl ex"
    using create_first_throw [of st "pre @ s # mid" s' post d ex] prefix [OF that(2-5)] that(1,6)
    by simp
  show ?thesis using a b c by blast
qed

theorem create_scans_past_unregistered_key_witness:
  "create (createErrorRegistry (Some
       \<lparr>cfg_seekers = Some [''a'', ''b'', ''c''], cfg_baseError = None,
        cfg_errors = [(''K2'', error_class ''SecondError''), (''K3'', error_class ''ThirdError'')],
        cfg_handlers = [(''K2'', log_handler ''h'')]\<rparr>))
     (Some [''a'' \<mapsto> Inr (VStr ''K1''), ''b'' \<mapsto> Inr (VStr ''K2''), ''c'' \<mapsto> Inr (VStr ''K3''),
            ''message'' \<mapsto> Inr (VStr ''m'')])
   = Inr (named_error ''SecondError'' ''m'')
   \<and> create (createErrorRegistry (Some
       \<lparr>cfg_seekers = Some [''a'', ''b'', ''c''], cfg_baseError = None,
        cfg_errors = [(''K2'', error_class ''SecondError''), (''K3'', error_class ''ThirdError'')],
        cfg_handlers = [(''K2'', log_handler ''h'')]\<rparr>))
     (Some [''a'' \<mapsto> Inr (VStr ''K1''), ''b'' \<mapsto> Inr (VStr ''K4''), ''message'' \<mapsto> Inr (VStr ''m'')])
   = Inr (Error_object ''m'')"
proof -
  let ?st = "createErrorRegistry (Some
       \<lparr>cfg_seekers = Some [''a'', ''b'', ''c''], cfg_baseError = None,
        cfg_errors = [(''K2'', error_class ''SecondError''), (''K3'', error_class ''ThirdError'')],
        cfg_handlers = [(''K2'', log_handler ''h'')]\<rparr>)"
  have st: "seekers ?st = [''a'', ''b'', ''c'']" "baseError ?st = None"
    "errorRegistry ?st = [''K2'' \<mapsto> error_class ''SecondError'', ''K3'' \<mapsto> error_class ''ThirdError'']"
    by (simp_all add: createErrorRegistry_def)
  have 1: "create ?st
       (Some [''a'' \<mapsto> Inr (VStr ''K1''), ''b'' \<mapsto> Inr (VStr ''K2''), ''c'' \<mapsto> Inr (VStr ''K3''),
              ''message'' \<mapsto> Inr (VStr ''m'')])
     = Inr (named_error ''SecondError'' ''m'')"
    using create_scans_past_unregistered_key [of ?st "[]" "''a''" "[]" "''b''" "[''c'']"
        "Some [''a'' \<mapsto> Inr (VStr ''K1''), ''b'' \<mapsto> Inr (VStr ''K2''), ''c'' \<mapsto> Inr (VStr ''K3''),
               ''message'' \<mapsto> Inr (VStr ''m'')]" "''K1''" "''K2''" "error_class ''SecondError''"] st
    by (simp add: seeker_key_def get_prop_def createErrorFromCreator_def error_class_def
        new_named_error_string)
  have 2: "create ?st
       (Some [''a'' \<mapsto> Inr (VStr ''K1''), ''b'' \<mapsto> Inr (VStr ''K4''), ''message'' \<mapsto> Inr (VStr ''m'')])
     = Inr (Error_object ''m'')"
    using create_scans_past_unregistered_key [of ?st "[]" "''a''" _ _ "[''b'', ''c'']"
        "Some [''a'' \<mapsto> Inr (VStr ''K1''), ''b'' \<mapsto> Inr (VStr ''K4''), ''message'' \<mapsto> Inr (VStr ''m'')]"
        "''K1''"] st
    by (simp add: seeker_key_def get_prop_def create_fallback_def)
  show ?thesis using 1 2 by blast
qed







text \<open>
  C6 as stated fails: \<^verbatim>\<open>createError\<close> throws on malformed data with no creator and no
  \<^verbatim>\<open>baseError\<close> in play. \<^verbatim>\<open>{status: Object.create(null)}\<close> throws a TypeError in
  \<^verbatim>\<open>String(value)\<close>, a seeker value whose \<^verbatim>\<open>toString\<close> throws and a seeker property whose getter
  throws pass their exception on, and \<^verbatim>\<open>{message: Symbol("s")}\<close> throws a TypeError in
  \<^verbatim>\<open>new Error\<close>. The source has no \<^verbatim>\<open>try\<close> anywhere.
\<close>

theorem create_total_counterexample:
  "create (createErrorRegistry None :: (string val, unit, string) registry)
     (Some [''status'' \<mapsto> Inr (VObject (Inl TypeError))]) = Inl TypeError
   \<and> create (createErrorRegistry None :: (string val, unit, string) registry)
     (Some [''code'' \<mapsto> Inr (VObject (Inl (Thrown ''toString failed'')))])
     = Inl (Thrown ''toString failed'')
   \<and> create (createErrorRegistry None :: (string val, unit, string) registry)
     (Some [''code'' \<mapsto> Inl (Thrown ''getter failed'')]) = Inl (Thrown ''getter failed'')
   \<and> create (createErrorRegistry None :: (string val, unit, string) registry)
     (Some [''message'' \<mapsto> Inr (VSymbol ''s'')]) = Inl TypeError"
  by (simp add: create_def create_fallback_def createErrorRegistry_def defaultSeekers_def
      seeker_key_def get_prop_def)

text \<open>
  C6, amended. \<^verbatim>\<open>createError\<close> returns an error value whenever the seeker values it reads
  (those before the first registered key) and, on the last resort, the message can be read
  and converted to strings, and the one creator it selects returns: the result of the
  creator of the first registered seeker key, else that of the \<^verbatim>\<open>baseError\<close>, else the generic
  Error with the message or \<^verbatim>\<open>"Unknown error"\<close>. A null or undefined record reads as no seeker
  match. Only null and undefined seeker values are skipped: \<^verbatim>\<open>false\<close>, \<^verbatim>\<open>0\<close> and \<^verbatim>\<open>""\<close> resolve
  to the keys \<^verbatim>\<open>"false"\<close>, \<^verbatim>\<open>"0"\<close> and \<^verbatim>\<open>""\<close>, at any seeker, and a value that is not an object
  with a throwing conversion always resolves. When reading or converting a seeker value
  or the message throws, \<^verbatim>\<open>createError\<close> throws that exception.
\<close>

theorem create_total:
  fixes st :: "('c, 'w, 'x) registry"
  shows
  "(seekers st = pre @ s # post
      \<and> (\<forall>t\<in>set pre. seeker_key d t = Inr None
            \<or> (\<exists>k'. seeker_key d t = Inr (Some k') \<and> errorRegistry st k' = None))
      \<and> seeker_key d s = Inr (Some k) \<and> errorRegistry st k = Some c
      \<and> (if is_function c \<and> has_prototype c then construct c d else call c d) = Inr e
    \<longrightarrow> create st d = Inr e)
   \<and> ((\<forall>t\<in>set (seekers st). seeker_key d t = Inr None
            \<or> (\<exists>k'. seeker_key d t = Inr (Some k') \<and> errorRegistry st k' = None))
      \<and> baseError st = Some b
      \<and> (if is_function b \<and> has_prototype b then construct b d else call b d) = Inr e
    \<longrightarrow> create st d = Inr e)
   \<and> ((\<forall>t\<in>set (seekers st). seeker_key d t = Inr None
            \<or> (\<exists>k'. seeker_key d t = Inr (Some k') \<and> errorRegistry st k' = None))
      \<and> baseError st = None \<and> get_prop d ''message'' = Inr m \<and> nullish m
    \<longrightarrow> create st d = Inr (Error_object ''Unknown error''))
   \<and> ((\<forall>t\<in>set (seekers st). seeker_key d t = Inr None
            \<or> (\<exists>k'. seeker_key d t = Inr (Some k') \<and> errorRegistry st k' = None))
      \<and> baseError st = None \<and> get_prop d ''message'' = Inr m \<and> \<not> nullish m
      \<and> (\<forall>desc. m \<noteq> VSymbol desc) \<and> js_String m = Inr msg
    \<longrightarrow> create st d = Inr (Error_object msg))
   \<and> seeker_key (None :: 'x data) s = Inr None
   \<and> create st None = create_fallback st None
   \<and> (baseError st = None \<longrightarrow> create st None = Inr (Error_object ''Unknown error''))
   \<and> (seeker_key d s = Inr None
        \<longleftrightarrow> get_prop d s = Inr VNull \<or> get_prop d s = Inr VUndefined)
   \<and> (get_prop d s = Inr (VBool False) \<longrightarrow> seeker_key d s = Inr (Some ''false''))
   \<and> (get_prop d s = Inr (VNumber ''0'') \<longrightarrow> seeker_key d s = Inr (Some ''0''))
   \<and> (get_prop d s = Inr (VStr []) \<longrightarrow> seeker_key d s = Inr (Some []))
   \<and> (get_prop d s = Inr v \<and> (\<forall>ex. v \<noteq> VObject (Inl ex)) \<longrightarrow> (\<exists>r. seeker_key d s = Inr r))
   \<and> (seekers st = pre @ s # post
      \<and> (\<forall>t\<in>set pre. seeker_key d t = Inr None
            \<or> (\<exists>k'. seeker_key d t = Inr (Some k') \<and> errorRegistry st k' = None))
      \<and> seeker_key d s = Inl ex
    \<longrightarrow> create st d = Inl ex)
   \<and> ((\<forall>t\<in>set (seekers st). seeker_key d t = Inr None
            \<or> (\<exists>k'. seeker_key d t = Inr (Some k') \<and> errorRegistry st k' = None))
      \<and> baseError st = None
      \<and> (get_prop d ''message'' = Inl ex
          \<or> (\<exists>desc. get_prop d ''message'' = Inr (VSymbol desc) \<and> ex = TypeError)
          \<or> get_prop d ''message'' = Inr (VObject (Inl ex)))
    \<longrightarrow> create st d = Inl ex)"
proof -
  have c1:
    "(seekers st = pre @ s # post
        \<and> (\<forall>t\<in>set pre. seeker_key d t = Inr None
              \<or> (\<exists>k'. seeker_key d t = Inr (Some k') \<and> errorRegistry st k' = None))
        \<and> seeker_key d s = Inr (Some k) \<and> errorRegistry st k = Some c
        \<and> (if is_function c \<and> has_prototype c then construct c d else call c d) = Inr e
      \<longrightarrow> create st d = Inr e)"
    using create_first_hit [of st pre s post d k c] by (auto simp: createErrorFromCreator_def)
  have c2:
    "((\<forall>t\<in>set (seekers st). seeker_key d t = Inr None
              \<or> (\<exists>k'. seeker_key d t = Inr (Some k') \<and> errorRegistry st k' = None))
        \<and> baseError st = Some b
        \<and> (if is_function b \<and> has_prototype b then construct b d else call b d) = Inr e
      \<longrightarrow> create st d = Inr e)"
    using create_all_miss [of st d] by (auto simp: create_fallback_def createErrorFromCreator_def)
  have c3:
    "((\<forall>t\<in>set (seekers st). seeker_key d t = Inr None
              \<or> (\<exists>k'. seeker_key d t = Inr (Some k') \<and> errorRegistry st k' = None))
        \<and> baseError st = None \<and> get_prop d ''message'' = Inr m \<and> nullish m
      \<longrightarrow> create st d = Inr (Error_object ''Unknown error''))"
    using create_all_miss [of st d] by (auto simp: create_fallback_def)
  have c4:
    "((\<forall>t\<in>set (seekers st). seeker_key d t = Inr None
              \<or> (\<exists>k'. seeker_key d t = Inr (Some k') \<and> errorRegistry st k' = None))
        \<and> baseError st = None \<and> get_prop d ''message'' = Inr m \<and> \<not> nullish m
        \<and> (\<forall>desc. m \<noteq> VSymbol desc) \<and> js_String m = Inr msg
      \<longrightarrow> create st d = Inr (Error_object msg))"
  proof (intro impI, elim conjE)
    assume miss: "\<forall>t\<in>set (seekers st). seeker_key d t = Inr None
            \<or> (\<exists>k'. seeker_key d t = Inr (Some k') \<and> errorRegistry st k' = None)"
      and rest: "baseError st = None" "get_prop d ''message'' = Inr m" "\<not> nullish m"
        "\<forall>desc. m \<noteq> VSymbol desc" "js_String m = Inr msg"
    from create_all_miss [OF miss] rest show "create st d = Inr (Error_object msg)"
      by (cases m) (simp_all add: create_fallback_def)
  qed
  have c5:
    "seeker_key (None :: 'x data) s = Inr None"
    by (simp add: seeker_key_def get_prop_def)
  have c6:
    "create st None = create_fallback st None"
    by (rule create_all_miss) (simp add: seeker_key_def get_prop_def)
  have c7:
    "(baseError st = None \<longrightarrow> create st None = Inr (Error_object ''Unknown error''))"
  proof
    assume "baseError st = None"
    moreover have "create st None = create_fallback st None"
      by (rule create_all_miss) (simp add: seeker_key_def get_prop_def)
    ultimately show "create st None = Inr (Error_object ''Unknown error'')"
      by (simp add: create_fallback_def get_prop_def)
  qed
  have c8:
    "(seeker_key d s = Inr None
          \<longleftrightarrow> get_prop d s = Inr VNull \<or> get_prop d s = Inr VUndefined)"
  proof (cases "get_prop d s")
    case (Inl a)
    then show ?thesis by (simp add: seeker_key_def)
  next
    case (Inr v)
    then show ?thesis by (cases v) (auto simp: seeker_key_def split: sum.splits)
  qed
  have c9:
    "(get_prop d s = Inr (VBool False) \<longrightarrow> seeker_key d s = Inr (Some ''false''))"
    by (simp add: seeker_key_def)
  have c10:
    "(get_prop d s = Inr (VNumber ''0'') \<longrightarrow> seeker_key d s = Inr (Some ''0''))"
    by (simp add: seeker_key_def)
  have c11:
    "(get_prop d s = Inr (VStr []) \<longrightarrow> seeker_key d s = Inr (Some []))"
    by (simp add: seeker_key_def)
  have c12:
    "(get_prop d s = Inr v \<and> (\<forall>ex. v \<noteq> VObject (Inl ex)) \<longrightarrow> (\<exists>r. seeker_key d s = Inr r))"
  proof (intro impI, elim conjE)
    assume v: "get_prop d s = Inr v" and no: "\<forall>ex. v \<noteq> VObject (Inl ex)"
    show "\<exists>r. seeker_key d s = Inr r"
    proof (cases v)
      case (VObject r)
      with no obtain str where "r = Inr str" by (cases r) auto
      with VObject v show ?thesis by (simp add: seeker_key_def)
    qed (use v in \<open>simp_all add: seeker_key_def\<close>)
  qed
  have c13:
    "(seekers st = pre @ s # post
        \<and> (\<forall>t\<in>set pre. seeker_key d t = Inr None
              \<or> (\<exists>k'. seeker_key d t = Inr (Some k') \<and> errorRegistry st k' = None))
        \<and> seeker_key d s = Inl ex
      \<longrightarrow> create st d = Inl ex)"
    using create_first_throw [of st pre s post d ex] by blast
  have c14:
    "((\<forall>t\<in>set (seekers st). seeker_key d t = Inr None
              \<or> (\<exists>k'. seeker_key d t = Inr (Some k') \<and> errorRegistry st k' = None))
        \<and> baseError st = None
        \<and> (get_prop d ''message'' = Inl ex
            \<or> (\<exists>desc. get_prop d ''message'' = Inr (VSymbol desc) \<and> ex = TypeError)
            \<or> get_prop d ''message'' = Inr (VObject (Inl ex)))
      \<longrightarrow> create st d = Inl ex)"
    using create_all_miss [of st d] by (auto simp: create_fallback_def)
  show ?thesis
    by (intro conjI) (fact c1 c2 c3 c4 c5 c6 c7 c8 c9 c10 c11 c12 c13 c14)+
qed

theorem create_total_witness:
  "create (createErrorRegistry (Some
       \<lparr>cfg_seekers = None, cfg_baseError = Some (throwing_factory ''base failed''),
        cfg_errors = [(''0'', error_class ''ZeroError''), (''false'', error_class ''FalseError''),
                      ([], error_class ''EmptyError''), (''BOOM'', throwing_class ''boom'')],
        cfg_handlers = [(''404'', log_handler ''h'')]\<rparr>))
     (Some [''code'' \<mapsto> Inr VNull, ''status'' \<mapsto> Inr (VNumber ''0''), ''message'' \<mapsto> Inr (VStr ''m'')])
   = Inr (named_error ''ZeroError'' ''m'')
   \<and> create (createErrorRegistry (Some
       \<lparr>cfg_seekers = None, cfg_baseError = Some (throwing_factory ''base failed''),
        cfg_errors = [(''0'', error_class ''ZeroError''), (''false'', error_class ''FalseError''),
                      ([], error_class ''EmptyError''), (''BOOM'', throwing_class ''boom'')],
        cfg_handlers = [(''404'', log_handler ''h'')]\<rparr>))
     (Some [''status'' \<mapsto> Inr (VBool False), ''message'' \<mapsto> Inr (VStr ''m'')])
   = Inr (named_error ''FalseError'' ''m'')
   \<and> create (createErrorRegistry (Some
       \<lparr>cfg_seekers = None, cfg_baseError = Some (throwing_factory ''base failed''),
        cfg_errors = [(''0'', error_class ''ZeroError''), (''false'', error_class ''FalseError''),
                      ([], error_class ''EmptyError''), (''BOOM'', throwing_class ''boom'')],
        cfg_handlers = [(''404'', log_handler ''h'')]\<rparr>))
     (Some [''code'' \<mapsto> Inr VUndefined, ''status'' \<mapsto> Inr (VStr []), ''message'' \<mapsto> Inr (VStr ''m'')])
   = Inr (named_error ''EmptyError'' ''m'')
   \<and> create (createErrorRegistry (Some
       \<lparr>cfg_seekers = None, cfg_baseError = Some (arrow_factory ''ApiError''),
        cfg_errors = [(''BOOM'', throwing_class ''boom'')],
        cfg_handlers = [(''404'', log_handler ''h'')]\<rparr>))
     (Some [''code'' \<mapsto> Inr (VStr ''OTHER''), ''message'' \<mapsto> Inr (VStr ''m'')])
   = Inr (named_error ''ApiError'' ''m'')
   \<and> create (createErrorRegistry (Some
       \<lparr>cfg_seekers = None, cfg_baseError = None,
        cfg_errors = [(''BOOM'', throwing_class ''boom'')],
        cfg_handlers = [(''404'', log_handler ''h'')]\<rparr>)) None
   = Inr (Error_object ''Unknown error'')
   \<and> create (createErrorRegistry (Some
       \<lparr>cfg_seekers = None, cfg_baseError = None,
        cfg_errors = [(''BOOM'', throwing_class ''boom'')],
        cfg_handlers = [(''404'', log_handler ''h'')]\<rparr>))
     (Some [''code'' \<mapsto> Inr VNull, ''message'' \<mapsto> Inr (VNumber ''5'')])
   = Inr (Error_object ''5'')"
proof -
  let ?st = "createErrorRegistry (Some
       \<lparr>cfg_seekers = None, cfg_baseError = Some (throwing_factory ''base failed''),
        cfg_errors = [(''0'', error_class ''ZeroError''), (''false'', error_class ''FalseError''),
                      ([], error_class ''EmptyError''), (''BOOM'', throwing_class ''boom'')],
        cfg_handlers = [(''404'', log_handler ''h'')]\<rparr>)"
  let ?sb = "createErrorRegistry (Some
       \<lparr>cfg_seekers = None, cfg_baseError = Some (arrow_factory ''ApiError''),
        cfg_errors = [(''BOOM'', throwing_class ''boom'')],
        cfg_handlers = [(''404'', log_handler ''h'')]\<rparr>)"
  let ?sn = "createErrorRegistry (Some
       \<lparr>cfg_seekers = None, cfg_baseError = None,
        cfg_errors = [(''BOOM'', throwing_class ''boom'')],
        cfg_handlers = [(''404'', log_handler ''h'')]\<rparr>)"
  have st: "seekers ?st = [''code'', ''status'']"
    "errorRegistry ?st = [''0'' \<mapsto> error_class ''ZeroError'', ''false'' \<mapsto> error_class ''FalseError'',
        [] \<mapsto> error_class ''EmptyError'', ''BOOM'' \<mapsto> throwing_class ''boom'']"
    by (simp_all add: createErrorRegistry_def defaultSeekers_def)
  have sb: "seekers ?sb = [''code'', ''status'']" "baseError ?sb = Some (arrow_factory ''ApiError'')"
    "errorRegistry ?sb = [''BOOM'' \<mapsto> throwing_class ''boom'']"
    by (simp_all add: createErrorRegistry_def defaultSeekers_def)
  have sn: "seekers ?sn = [''code'', ''status'']" "baseError ?sn = None"
    "errorRegistry ?sn = [''BOOM'' \<mapsto> throwing_class ''boom'']"
    by (simp_all add: createErrorRegistry_def defaultSeekers_def)
  have 1: "create ?st
       (Some [''code'' \<mapsto> Inr VNull, ''status'' \<mapsto> Inr (VNumber ''0''), ''message'' \<mapsto> Inr (VStr ''m'')])
     = Inr (named_error ''ZeroError'' ''m'')"
    using create_total [of ?st "[''code'']" "''status''" "[]"
        "Some [''code'' \<mapsto> Inr VNull, ''status'' \<mapsto> Inr (VNumber ''0''), ''message'' \<mapsto> Inr (VStr ''m'')]"
        "''0''" "error_class ''ZeroError''" "named_error ''ZeroError'' ''m''"] st
    by (simp add: seeker_key_def get_prop_def error_class_def new_named_error_string)
  have 2: "create ?st (Some [''status'' \<mapsto> Inr (VBool False), ''message'' \<mapsto> Inr (VStr ''m'')])
     = Inr (named_error ''FalseError'' ''m'')"
    using create_total [of ?st "[''code'']" "''status''" "[]"
        "Some [''status'' \<mapsto> Inr (VBool False), ''message'' \<mapsto> Inr (VStr ''m'')]"
        "''false''" "error_class ''FalseError''" "named_error ''FalseError'' ''m''"] st
    by (simp add: seeker_key_def get_prop_def error_class_def new_named_error_string)
  have 3: "create ?st
       (Some [''code'' \<mapsto> Inr VUndefined, ''status'' \<mapsto> Inr (VStr []), ''message'' \<mapsto> Inr (VStr ''m'')])
     = Inr (named_error ''EmptyError'' ''m'')"
    using create_total [of ?st "[''code'']" "''status''" "[]"
        "Some [''code'' \<mapsto> Inr VUndefined, ''status'' \<mapsto> Inr (VStr []), ''message'' \<mapsto> Inr (VStr ''m'')]"
        "[]" "error_class ''EmptyError''" "named_error ''EmptyError'' ''m''"] st
    by (simp add: seeker_key_def get_prop_def error_class_def new_named_error_string)
  have 4: "create ?sb (Some [''code'' \<mapsto> Inr (VStr ''OTHER''), ''message'' \<mapsto> Inr (VStr ''m'')])
     = Inr (named_error ''ApiError'' ''m'')"
    using create_total [of ?sb _ _ _
        "Some [''code'' \<mapsto> Inr (VStr ''OTHER''), ''message'' \<mapsto> Inr (VStr ''m'')]"
        _ _ "named_error ''ApiError'' ''m''" "arrow_factory ''ApiError''"] sb
    by (simp add: seeker_key_def get_prop_def arrow_factory_def new_named_error_string)
  have 5: "create ?sn None = Inr (Error_object ''Unknown error'')"
    using create_total [of ?sn, THEN conjunct2, THEN conjunct2, THEN conjunct2, THEN conjunct2,
        THEN conjunct2, THEN conjunct2, THEN conjunct1] sn(2)
    by blast
  have 6: "create ?sn (Some [''code'' \<mapsto> Inr VNull, ''message'' \<mapsto> Inr (VNumber ''5'')])
     = Inr (Error_object ''5'')"
    using create_total [of ?sn _ _ _
        "Some [''code'' \<mapsto> Inr VNull, ''message'' \<mapsto> Inr (VNumber ''5'')]"
        _ _ _ _ "VNumber ''5''" "''5''"] sn
    by (simp add: seeker_key_def get_prop_def)
  show ?thesis using 1 2 3 4 5 6 by blast
qed

text \<open>
  C7 as stated fails. An error of an anonymous class has the constructor name \<^verbatim>\<open>""\<close>; with a
  handler registered under \<^verbatim>\<open>""\<close> the entry exists, but \<^verbatim>\<open>if (constructorName)\<close> skips the
  lookup and the handler is not invoked. And for the error \<^verbatim>\<open>{code: Object.create(null)}\<close> no
  seeker-derived key locates a handler, yet \<^verbatim>\<open>handleError\<close> throws the TypeError of
  \<^verbatim>\<open>String(value)\<close> instead of completing, as it throws what a getter of
  \<^verbatim>\<open>error.constructor\<close> throws.
\<close>

theorem handleError_fallback_counterexample:
  "handlerRegistry (createErrorRegistry (Some
       \<lparr>cfg_seekers = None, cfg_baseError = None,
        cfg_errors = [(''NOT_FOUND'', error_class ''NotFoundError'')],
        cfg_handlers = [([], log_handler ''anonymous'')]\<rparr>)) []
     = Some (log_handler ''anonymous'')
   \<and> log_handler ''anonymous''
       \<lparr>props = [''message'' \<mapsto> Inr (VStr ''x'')], ctor_name = Inr (Some [])\<rparr> [] []
     = Inr [(''anonymous'', [])]
   \<and> handleError (createErrorRegistry (Some
       \<lparr>cfg_seekers = None, cfg_baseError = None,
        cfg_errors = [(''NOT_FOUND'', error_class ''NotFoundError'')],
        cfg_handlers = [([], log_handler ''anonymous'')]\<rparr>))
       \<lparr>props = [''message'' \<mapsto> Inr (VStr ''x'')], ctor_name = Inr (Some [])\<rparr> [] []
     = Inr []
   \<and> handleError (createErrorRegistry (Some
       \<lparr>cfg_seekers = None, cfg_baseError = None,
        cfg_errors = [(''NOT_FOUND'', error_class ''NotFoundError'')],
        cfg_handlers = [([], log_handler ''anonymous'')]\<rparr>))
       \<lparr>props = [''code'' \<mapsto> Inr (VObject (Inl TypeError))], ctor_name = Inr (Some ''Error'')\<rparr> [] []
     = Inl TypeError
   \<and> handleError (createErrorRegistry (Some
       \<lparr>cfg_seekers = None, cfg_baseError = None,
        cfg_errors = [(''NOT_FOUND'', error_class ''NotFoundError'')],
        cfg_handlers = [([], log_handler ''anonymous'')]\<rparr>))
       \<lparr>props = [''message'' \<mapsto> Inr (VStr ''x'')], ctor_name = Inl (Thrown ''getter failed'')\<rparr> [] []
     = Inl (Thrown ''getter failed'')"
  by (simp add: handleError_def handle_fallback_def createErrorRegistry_def defaultSeekers_def
      seeker_key_def get_prop_def log_handler_def)

text \<open>
  C7, amended. When every seeker value of the error reads as null or undefined or converts
  to a key without a handler, \<^verbatim>\<open>handleError\<close> looks the handler up under the error's
  constructor name if that name is defined and not empty, and invokes it with the error and
  then the context values, in that order; when there is no handler under that name, or the
  name is undefined or empty, it completes normally and leaves the world as it was. When
  reading or converting a seeker value or reading the constructor name throws,
  \<^verbatim>\<open>handleError\<close> throws that exception.
\<close>

theorem handleError_constructor_name_fallback:
  "((\<forall>s\<in>set (seekers st). seeker_key (Some (props e)) s = Inr None
        \<or> (\<exists>k. seeker_key (Some (props e)) s = Inr (Some k) \<and> handlerRegistry st k = None))
      \<and> ctor_name e = Inr (Some n) \<and> n \<noteq> [] \<and> handlerRegistry st n = Some h
    \<longrightarrow> handleError st e ctx w = h e ctx w)
   \<and> ((\<forall>s\<in>set (seekers st). seeker_key (Some (props e)) s = Inr None
        \<or> (\<exists>k. seeker_key (Some (props e)) s = Inr (Some k) \<and> handlerRegistry st k = None))
      \<and> ctor_name e = Inr (Some n) \<and> handlerRegistry st n = None
    \<longrightarrow> handleError st e ctx w = Inr w)
   \<and> ((\<forall>s\<in>set (seekers st). seeker_key (Some (props e)) s = Inr None
        \<or> (\<exists>k. seeker_key (Some (props e)) s = Inr (Some k) \<and> handlerRegistry st k = None))
      \<and> (ctor_name e = Inr None \<or> ctor_name e = Inr (Some []))
    \<longrightarrow> handleError st e ctx w = Inr w)
   \<and> (seekers st = pre @ s # post
      \<and> (\<forall>t\<in>set pre. seeker_key (Some (props e)) t = Inr None
        \<or> (\<exists>k. seeker_key (Some (props e)) t = Inr (Some k) \<and> handlerRegistry st k = None))
      \<and> seeker_key (Some (props e)) s = Inl ex
    \<longrightarrow> handleError st e ctx w = Inl ex)
   \<and> ((\<forall>s\<in>set (seekers st). seeker_key (Some (props e)) s = Inr None
        \<or> (\<exists>k. seeker_key (Some (props e)) s = Inr (Some k) \<and> handlerRegistry st k = None))
      \<and> ctor_name e = Inl ex
    \<longrightarrow> handleError st e ctx w = Inl ex)"
proof -
  have c1: "(\<forall>s\<in>set (seekers st). seeker_key (Some (props e)) s = Inr None
        \<or> (\<exists>k. seeker_key (Some (props e)) s = Inr (Some k) \<and> handlerRegistry st k = None))
      \<and> ctor_name e = Inr (Some n) \<and> n \<noteq> [] \<and> handlerRegistry st n = Some h
    \<longrightarrow> handleError st e ctx w = h e ctx w"
    using handle_all_miss [of st e ctx w] by (auto simp: handle_fallback_def)
  have c2: "(\<forall>s\<in>set (seekers st). seeker_key (Some (props e)) s = Inr None
        \<or> (\<exists>k. seeker_key (Some (props e)) s = Inr (Some k) \<and> handlerRegistry st k = None))
      \<and> ctor_name e = Inr (Some n) \<and> handlerRegistry st n = None
    \<longrightarrow> handleError st e ctx w = Inr w"
    using handle_all_miss [of st e ctx w] by (auto simp: handle_fallback_def)
  have c3: "(\<forall>s\<in>set (seekers st). seeker_key (Some (props e)) s = Inr None
        \<or> (\<exists>k. seeker_key (Some (props e)) s = Inr (Some k) \<and> handlerRegistry st k = None))
      \<and> (ctor_name e = Inr None \<or> ctor_name e = Inr (Some []))
    \<longrightarrow> handleError st e ctx w = Inr w"
    using handle_all_miss [of st e ctx w] by (auto simp: handle_fallback_def)
  have c4: "seekers st = pre @ s # post
      \<and> (\<forall>t\<in>set pre. seeker_key (Some (props e)) t = Inr None
        \<or> (\<exists>k. seeker_key (Some (props e)) t = Inr (Some k) \<and> handlerRegistry st k = None))
      \<and> seeker_key (Some (props e)) s = Inl ex
    \<longrightarrow> handleError st e ctx w = Inl ex"
    using handle_first_throw [of st pre s post e ex ctx w] by blast
  have c5: "(\<forall>s\<in>set (seekers st). seeker_key (Some (props e)) s = Inr None
        \<or> (\<exists>k. seeker_key (Some (props e)) s = Inr (Some k) \<and> handlerRegistry st k = None))
      \<and> ctor_name e = Inl ex
    \<longrightarrow> handleError st e ctx w = Inl ex"
    using handle_all_miss [of st e ctx w] by (auto simp: handle_fallback_def)
  show ?thesis by (intro conjI) (fact c1 c2 c3 c4 c5)+
qed

theorem handleError_constructor_name_fallback_witness:
  "handleError (createErrorRegistry (Some
       \<lparr>cfg_seekers = None, cfg_baseError = None,
        cfg_errors = [(''NOT_FOUND'', error_class ''NotFoundError'')],
        cfg_handlers = [(''NamedError'', log_handler ''named''), (''404'', log_handler ''h404'')]\<rparr>))
     (named_error ''NamedError'' ''Test'')
     [VStr ''req-1'', VNumber ''2''] []
   = Inr [(''named'', [VStr ''req-1'', VNumber ''2''])]
   \<and> handleError (createErrorRegistry (Some
       \<lparr>cfg_seekers = None, cfg_baseError = None,
        cfg_errors = [(''NOT_FOUND'', error_class ''NotFoundError'')],
        cfg_handlers = [(''NamedError'', log_handler ''named''), (''404'', log_handler ''h404'')]\<rparr>))
     (Error_object ''x'')
     [VStr ''req-1'', VNumber ''2''] []
   = Inr []
   \<and> handleError (createErrorRegistry (Some
       \<lparr>cfg_seekers = None, cfg_baseError = None,
        cfg_errors = [(''NOT_FOUND'', error_class ''NotFoundError'')],
        cfg_handlers = [(''NamedError'', log_handler ''named''), (''404'', log_handler ''h404'')]\<rparr>))
     \<lparr>props = [''code'' \<mapsto> Inr (VStr ''TEAPOT'')], ctor_name = Inr None\<rparr>
     [VStr ''req-1'', VNumber ''2''] []
   = Inr []"
proof -
  let ?st = "createErrorRegistry (Some
       \<lparr>cfg_seekers = None, cfg_baseError = None,
        cfg_errors = [(''NOT_FOUND'', error_class ''NotFoundError'')],
        cfg_handlers = [(''NamedError'', log_handler ''named''), (''404'', log_handler ''h404'')]\<rparr>)"
  have st: "seekers ?st = [''code'', ''status'']"
    "handlerRegistry ?st = [''NamedError'' \<mapsto> log_handler ''named'', ''404'' \<mapsto> log_handler ''h404'']"
    by (simp_all add: createErrorRegistry_def defaultSeekers_def)
  have 1: "handleError ?st (named_error ''NamedError'' ''Test'') [VStr ''req-1'', VNumber ''2''] []
     = Inr [(''named'', [VStr ''req-1'', VNumber ''2''])]"
    using handleError_constructor_name_fallback [of ?st "named_error ''NamedError'' ''Test''"
        "''NamedError''" "log_handler ''named''" "[VStr ''req-1'', VNumber ''2'']" "[]"] st
    by (simp add: seeker_key_def get_prop_def named_error_def log_handler_def)
  have 2: "handleError ?st (Error_object ''x'') [VStr ''req-1'', VNumber ''2''] [] = Inr []"
    using handleError_constructor_name_fallback [of ?st "Error_object ''x''"
        "''Error''" _ "[VStr ''req-1'', VNumber ''2'']" "[]"] st
    by (simp add: seeker_key_def get_prop_def Error_object_def)
  have 3: "handleError ?st \<lparr>props = [''code'' \<mapsto> Inr (VStr ''TEAPOT'')], ctor_name = Inr None\<rparr>
       [VStr ''req-1'', VNumber ''2''] [] = Inr []"
    using handleError_constructor_name_fallback [of ?st
        "\<lparr>props = [''code'' \<mapsto> Inr (VStr ''TEAPOT'')], ctor_name = Inr None\<rparr>"
        _ _ "[VStr ''req-1'', VNumber ''2'']" "[]"] st
    by (simp add: seeker_key_def get_prop_def)
  show ?thesis using 1 2 3 by blast
qed

text \<open>
  C8. Creator failures are not swallowed: when the creator that \<^verbatim>\<open>createError\<close> selects (the
  one of the first registered seeker key, or the \<^verbatim>\<open>baseError\<close> when no seeker key is
  registered) throws \<open>x\<close> on the data, as a constructor under \<^verbatim>\<open>new\<close> or as a plain function,
  the call of \<^verbatim>\<open>createError\<close> throws that same \<open>x\<close> and leaves the registry as it was.
\<close>

theorem creator_exception_propagates:
  "(seekers st = pre @ s # post
      \<and> (\<forall>t\<in>set pre. seeker_key d t = Inr None
            \<or> (\<exists>k'. seeker_key d t = Inr (Some k') \<and> errorRegistry st k' = None))
      \<and> seeker_key d s = Inr (Some k) \<and> errorRegistry st k = Some c
      \<and> is_function c \<and> has_prototype c \<and> construct c d = Inl x
    \<longrightarrow> createError st d = (Inl x, st))
   \<and> (seekers st = pre @ s # post
      \<and> (\<forall>t\<in>set pre. seeker_key d t = Inr None
            \<or> (\<exists>k'. seeker_key d t = Inr (Some k') \<and> errorRegistry st k' = None))
      \<and> seeker_key d s = Inr (Some k) \<and> errorRegistry st k = Some c
      \<and> \<not> (is_function c \<and> has_prototype c) \<and> call c d = Inl x
    \<longrightarrow> createError st d = (Inl x, st))
   \<and> ((\<forall>t\<in>set (seekers st). seeker_key d t = Inr None
            \<or> (\<exists>k'. seeker_key d t = Inr (Some k') \<and> errorRegistry st k' = None))
      \<and> baseError st = Some b
      \<and> is_function b \<and> has_prototype b \<and> construct b d = Inl x
    \<longrightarrow> createError st d = (Inl x, st))
   \<and> ((\<forall>t\<in>set (seekers st). seeker_key d t = Inr None
            \<or> (\<exists>k'. seeker_key d t = Inr (Some k') \<and> errorRegistry st k' = None))
      \<and> baseError st = Some b
      \<and> \<not> (is_function b \<and> has_prototype b) \<and> call b d = Inl x
    \<longrightarrow> createError st d = (Inl x, st))"
proof -
  have c1: "seekers st = pre @ s # post
      \<and> (\<forall>t\<in>set pre. seeker_key d t = Inr None
            \<or> (\<exists>k'. seeker_key d t = Inr (Some k') \<and> errorRegistry st k' = None))
      \<and> seeker_key d s = Inr (Some k) \<and> errorRegistry st k = Some c
      \<and> is_function c \<and> has_prototype c \<and> construct c d = Inl x
    \<longrightarrow> createError st d = (Inl x, st)"
    using create_first_hit [of st pre s post d k c]
    by (auto simp: createError_def createErrorFromCreator_def)
  have c2: "seekers st = pre @ s # post
      \<and> (\<forall>t\<in>set pre. seeker_key d t = Inr None
            \<or> (\<exists>k'. seeker_key d t = Inr (Some k') \<and> errorRegistry st k' = None))
      \<and> seeker_key d s = Inr (Some k) \<and> errorRegistry st k = Some c
      \<and> \<not> (is_function c \<and> has_prototype c) \<and> call c d = Inl x
    \<longrightarrow> createError st d = (Inl x, st)"
    using create_first_hit [of st pre s post d k c]
    by (auto simp: createError_def createErrorFromCreator_def)
  have c3: "(\<forall>t\<in>set (seekers st). seeker_key d t = Inr None
            \<or> (\<exists>k'. seeker_key d t = Inr (Some k') \<and> errorRegistry st k' = None))
      \<and> baseError st = Some b
      \<and> is_function b \<and> has_prototype b \<and> construct b d = Inl x
    \<longrightarrow> createError st d = (Inl x, st)"
    using create_all_miss [of st d]
    by (auto simp: createError_def create_fallback_def createErrorFromCreator_def)
  have c4: "(\<forall>t\<in>set (seekers st). seeker_key d t = Inr None
            \<or> (\<exists>k'. seeker_key d t = Inr (Some k') \<and> errorRegistry st k' = None))
      \<and> baseError st = Some b
      \<and> \<not> (is_function b \<and> has_prototype b) \<and> call b d = Inl x
    \<longrightarrow> createError st d = (Inl x, st)"
    using create_all_miss [of st d]
    by (auto simp: createError_def create_fallback_def createErrorFromCreator_def)
  show ?thesis by (intro conjI) (fact c1 c2 c3 c4)+
qed

theorem creator_exception_propagates_witness:
  "createError (createErrorRegistry (Some
       \<lparr>cfg_seekers = None, cfg_baseError = Some (throwing_factory ''base failed''),
        cfg_errors = [(''BOOM'', throwing_class ''constructor failed''),
                      (''BANG'', throwing_factory ''factory failed'')],
        cfg_handlers = [(''404'', log_handler ''h'')]\<rparr>))
     (Some [''code'' \<mapsto> Inr (VStr ''BOOM'')])
   = (Inl (Thrown ''constructor failed''), createErrorRegistry (Some
       \<lparr>cfg_seekers = None, cfg_baseError = Some (throwing_factory ''base failed''),
        cfg_errors = [(''BOOM'', throwing_class ''constructor failed''),
                      (''BANG'', throwing_factory ''factory failed'')],
        cfg_handlers = [(''404'', log_handler ''h'')]\<rparr>))
   \<and> createError (createErrorRegistry (Some
       \<lparr>cfg_seekers = None, cfg_baseError = Some (throwing_factory ''base failed''),
        cfg_errors = [(''BOOM'', throwing_class ''constructor failed''),
                      (''BANG'', throwing_factory ''factory failed'')],
        cfg_handlers = [(''404'', log_handler ''h'')]\<rparr>))
     (Some [''status'' \<mapsto> Inr (VStr ''BANG'')])
   = (Inl (Thrown ''factory failed''), createErrorRegistry (Some
       \<lparr>cfg_seekers = None, cfg_baseError = Some (throwing_factory ''base failed''),
        cfg_errors = [(''BOOM'', throwing_class ''constructor failed''),
                      (''BANG'', throwing_factory ''factory failed'')],
        cfg_handlers = [(''404'', log_handler ''h'')]\<rparr>))
   \<and> createError (createErrorRegistry (Some
       \<lparr>cfg_seekers = None, cfg_baseError = Some (throwing_factory ''base failed''),
        cfg_errors = [(''BOOM'', throwing_class ''constructor failed''),
                      (''BANG'', throwing_factory ''factory failed'')],
        cfg_handlers = [(''404'', log_handler ''h'')]\<rparr>))
     (Some [''code'' \<mapsto> Inr (VStr ''OTHER'')])
   = (Inl (Thrown ''base failed''), createErrorRegistry (Some
       \<lparr>cfg_seekers = None, cfg_baseError = Some (throwing_factory ''base failed''),
        cfg_errors = [(''BOOM'', throwing_class ''constructor failed''),
                      (''BANG'', throwing_factory ''factory failed'')],
        cfg_handlers = [(''404'', log_handler ''h'')]\<rparr>))
   \<and> createError (createErrorRegistry (Some
       \<lparr>cfg_seekers = None, cfg_baseError = Some (throwing_class ''base class failed''),
        cfg_errors = [(''BOOM'', throwing_class ''constructor failed'')],
        cfg_handlers = [(''404'', log_handler ''h'')]\<rparr>))
     None
   = (Inl (Thrown ''base class failed''), createErrorRegistry (Some
       \<lparr>cfg_seekers = None, cfg_baseError = Some (throwing_class ''base class failed''),
        cfg_errors = [(''BOOM'', throwing_class ''constructor failed'')],
        cfg_handlers = [(''404'', log_handler ''h'')]\<rparr>))"
proof -
  let ?st = "createErrorRegistry (Some
       \<lparr>cfg_seekers = None, cfg_baseError = Some (throwing_factory ''base failed''),
        cfg_errors = [(''BOOM'', throwing_class ''constructor failed''),
                      (''BANG'', throwing_factory ''factory failed'')],
        cfg_handlers = [(''404'', log_handler ''h'')]\<rparr>)"
  let ?sc = "createErrorRegistry (Some
       \<lparr>cfg_seekers = None, cfg_baseError = Some (throwing_class ''base class failed''),
        cfg_errors = [(''BOOM'', throwing_class ''constructor failed'')],
        cfg_handlers = [(''404'', log_handler ''h'')]\<rparr>)"
  have st: "seekers ?st = [''code'', ''status'']"
    "baseError ?st = Some (throwing_factory ''base failed'')"
    "errorRegistry ?st = [''BOOM'' \<mapsto> throwing_class ''constructor failed'',
        ''BANG'' \<mapsto> throwing_factory ''factory failed'']"
    by (simp_all add: createErrorRegistry_def defaultSeekers_def)
  have sc: "seekers ?sc = [''code'', ''status'']"
    "baseError ?sc = Some (throwing_class ''base class failed'')"
    "errorRegistry ?sc = [''BOOM'' \<mapsto> throwing_class ''constructor failed'']"
    by (simp_all add: createErrorRegistry_def defaultSeekers_def)
  have 1: "createError ?st (Some [''code'' \<mapsto> Inr (VStr ''BOOM'')])
     = (Inl (Thrown ''constructor failed''), ?st)"
    using creator_exception_propagates [of ?st "[]" "''code''" "[''status'']"
        "Some [''code'' \<mapsto> Inr (VStr ''BOOM'')]" "''BOOM''" "throwing_class ''constructor failed''"
        "Thrown ''constructor failed''", THEN conjunct1] st
    by (simp add: seeker_key_def get_prop_def throwing_class_def)
  have 2: "createError ?st (Some [''status'' \<mapsto> Inr (VStr ''BANG'')])
     = (Inl (Thrown ''factory failed''), ?st)"
    using creator_exception_propagates [of ?st "[''code'']" "''status''" "[]"
        "Some [''status'' \<mapsto> Inr (VStr ''BANG'')]" "''BANG''" "throwing_factory ''factory failed''"
        "Thrown ''factory failed''", THEN conjunct2, THEN conjunct1] st
    by (simp add: seeker_key_def get_prop_def throwing_factory_def)
  have 3: "createError ?st (Some [''code'' \<mapsto> Inr (VStr ''OTHER'')])
     = (Inl (Thrown ''base failed''), ?st)"
    using creator_exception_propagates [of ?st _ _ _
        "Some [''code'' \<mapsto> Inr (VStr ''OTHER'')]" _ _
        "Thrown ''base failed''" "throwing_factory ''base failed''",
        THEN conjunct2, THEN conjunct2, THEN conjunct2] st
    by (simp add: seeker_key_def get_prop_def throwing_factory_def)
  have 4: "createError ?sc None = (Inl (Thrown ''base class failed''), ?sc)"
    using creator_exception_propagates [of ?sc _ _ _ None _ _
        "Thrown ''base class failed''" "throwing_class ''base class failed''",
        THEN conjunct2, THEN conjunct2, THEN conjunct1] sc
    by (simp add: seeker_key_def get_prop_def throwing_class_def)
  show ?thesis using 1 2 3 4 by blast
qed

text \<open>
  C9. A registry built with no configuration, with the seekers omitted or with the seekers
  given as the empty list has the seekers \<^verbatim>\<open>["code", "status"]\<close>, while a non-empty list is
  kept, and the base creator and both maps come from the configuration. So it is the same
  registry state as one built with the seekers \<^verbatim>\<open>["code", "status"]\<close>, and every
  \<^verbatim>\<open>createError\<close> and \<^verbatim>\<open>handleError\<close> call behaves the same. In the witness a registry with
  empty or omitted seekers resolves through \<^verbatim>\<open>code\<close> and through \<^verbatim>\<open>status\<close>, and one with the
  seekers \<^verbatim>\<open>["errorCode"]\<close> does not look at \<^verbatim>\<open>code\<close>.
\<close>

theorem seekers_default_when_omitted_or_empty:
  fixes c :: "('c, 'w, 'x) config"
  shows
  "seekers (createErrorRegistry None :: ('c, 'w, 'x) registry) = [''code'', ''status'']
   \<and> seekers (createErrorRegistry (Some (c\<lparr>cfg_seekers := None\<rparr>))) = [''code'', ''status'']
   \<and> seekers (createErrorRegistry (Some (c\<lparr>cfg_seekers := Some []\<rparr>))) = [''code'', ''status'']
   \<and> (s \<noteq> [] \<longrightarrow> seekers (createErrorRegistry (Some (c\<lparr>cfg_seekers := Some s\<rparr>))) = s)
   \<and> baseError (createErrorRegistry (Some c)) = cfg_baseError c
   \<and> errorRegistry (createErrorRegistry (Some c)) = map_of (rev (cfg_errors c))
   \<and> handlerRegistry (createErrorRegistry (Some c)) = map_of (rev (cfg_handlers c))
   \<and> createErrorRegistry (Some (c\<lparr>cfg_seekers := None\<rparr>))
       = createErrorRegistry (Some (c\<lparr>cfg_seekers := Some [''code'', ''status'']\<rparr>))
   \<and> createErrorRegistry (Some (c\<lparr>cfg_seekers := Some []\<rparr>))
       = createErrorRegistry (Some (c\<lparr>cfg_seekers := Some [''code'', ''status'']\<rparr>))
   \<and> (createErrorRegistry None :: ('c, 'w, 'x) registry)
       = createErrorRegistry (Some
           \<lparr>cfg_seekers = Some [''code'', ''status''], cfg_baseError = None,
            cfg_errors = [], cfg_handlers = []\<rparr>)
   \<and> create (createErrorRegistry (Some (c\<lparr>cfg_seekers := None\<rparr>))) d
       = create (createErrorRegistry (Some (c\<lparr>cfg_seekers := Some [''code'', ''status'']\<rparr>))) d
   \<and> create (createErrorRegistry (Some (c\<lparr>cfg_seekers := Some []\<rparr>))) d
       = create (createErrorRegistry (Some (c\<lparr>cfg_seekers := Some [''code'', ''status'']\<rparr>))) d
   \<and> handleError (createErrorRegistry (Some (c\<lparr>cfg_seekers := None\<rparr>))) e ctx w
       = handleError (createErrorRegistry (Some (c\<lparr>cfg_seekers := Some [''code'', ''status'']\<rparr>))) e ctx w
   \<and> handleError (createErrorRegistry (Some (c\<lparr>cfg_seekers := Some []\<rparr>))) e ctx w
       = handleError (createErrorRegistry (Some (c\<lparr>cfg_seekers := Some [''code'', ''status'']\<rparr>))) e ctx w"
proof -
  have m: "set_entries Map.empty xs = map_of (rev xs)" for xs :: "(string \<times> 'a) list"
    by (rule ext) (simp add: set_entries_map_of split: option.splits)
  have eq: "createErrorRegistry (Some (c\<lparr>cfg_seekers := None\<rparr>))
       = createErrorRegistry (Some (c\<lparr>cfg_seekers := Some [''code'', ''status'']\<rparr>))"
    "createErrorRegistry (Some (c\<lparr>cfg_seekers := Some []\<rparr>))
       = createErrorRegistry (Some (c\<lparr>cfg_seekers := Some [''code'', ''status'']\<rparr>))"
    by (simp_all add: createErrorRegistry_def defaultSeekers_def)
  show ?thesis
    unfolding eq by (simp add: createErrorRegistry_def defaultSeekers_def m)
qed

theorem seekers_default_when_omitted_or_empty_witness:
  "create (createErrorRegistry (Some
       \<lparr>cfg_seekers = Some [], cfg_baseError = None,
        cfg_errors = [(''TEST'', error_class ''CustomError''), (''404'', error_class ''NotFoundError'')],
        cfg_handlers = [(''404'', log_handler ''h404'')]\<rparr>))
     (Some [''code'' \<mapsto> Inr (VStr ''TEST''), ''message'' \<mapsto> Inr (VStr ''Test'')])
   = Inr (named_error ''CustomError'' ''Test'')
   \<and> create (createErrorRegistry (Some
       \<lparr>cfg_seekers = None, cfg_baseError = None,
        cfg_errors = [(''TEST'', error_class ''CustomError''), (''404'', error_class ''NotFoundError'')],
        cfg_handlers = [(''404'', log_handler ''h404'')]\<rparr>))
     (Some [''status'' \<mapsto> Inr (VNumber ''404''), ''message'' \<mapsto> Inr (VStr ''Test'')])
   = Inr (named_error ''NotFoundError'' ''Test'')
   \<and> handleError (createErrorRegistry (Some
       \<lparr>cfg_seekers = Some [], cfg_baseError = None,
        cfg_errors = [(''TEST'', error_class ''CustomError''), (''404'', error_class ''NotFoundError'')],
        cfg_handlers = [(''404'', log_handler ''h404'')]\<rparr>))
     \<lparr>props = [''status'' \<mapsto> Inr (VNumber ''404'')], ctor_name = Inr (Some ''Object'')\<rparr> [] []
   = Inr [(''h404'', [])]
   \<and> create (createErrorRegistry (Some
       \<lparr>cfg_seekers = Some [''errorCode''], cfg_baseError = None,
        cfg_errors = [(''TEST'', error_class ''CustomError''), (''404'', error_class ''NotFoundError'')],
        cfg_handlers = [(''404'', log_handler ''h404'')]\<rparr>))
     (Some [''code'' \<mapsto> Inr (VStr ''TEST''), ''errorCode'' \<mapsto> Inr (VNumber ''404''),
            ''message'' \<mapsto> Inr (VStr ''Test'')])
   = Inr (named_error ''NotFoundError'' ''Test'')"
proof -
  let ?c = "\<lparr>cfg_seekers = Some [''errorCode''], cfg_baseError = None,
        cfg_errors = [(''TEST'', error_class ''CustomError''), (''404'', error_class ''NotFoundError'')],
        cfg_handlers = [(''404'', log_handler ''h404'')]\<rparr>"
  let ?d1 = "Some [''code'' \<mapsto> Inr (VStr ''TEST''), ''message'' \<mapsto> Inr (VStr ''Test'')]"
  let ?d2 = "Some [''status'' \<mapsto> Inr (VNumber ''404''), ''message'' \<mapsto> Inr (VStr ''Test'')]"
  let ?e = "\<lparr>props = [''status'' \<mapsto> Inr (VNumber ''404'')], ctor_name = Inr (Some ''Object'')\<rparr>"
  let ?d3 = "Some [''code'' \<mapsto> Inr (VStr ''TEST''), ''errorCode'' \<mapsto> Inr (VNumber ''404''),
            ''message'' \<mapsto> Inr (VStr ''Test'')]"
  note dflt = seekers_default_when_omitted_or_empty [of ?c]
  have reg: "errorRegistry (createErrorRegistry (Some (?c\<lparr>cfg_seekers := sk\<rparr>)))
       = [''TEST'' \<mapsto> error_class ''CustomError'', ''404'' \<mapsto> error_class ''NotFoundError'']"
    "handlerRegistry (createErrorRegistry (Some (?c\<lparr>cfg_seekers := sk\<rparr>)))
       = [''404'' \<mapsto> log_handler ''h404'']" for sk
    using seekers_default_when_omitted_or_empty [of "?c\<lparr>cfg_seekers := sk\<rparr>", THEN conjunct2,
        THEN conjunct2, THEN conjunct2, THEN conjunct2, THEN conjunct2, THEN conjunct1]
      seekers_default_when_omitted_or_empty [of "?c\<lparr>cfg_seekers := sk\<rparr>", THEN conjunct2,
        THEN conjunct2, THEN conjunct2, THEN conjunct2, THEN conjunct2, THEN conjunct2,
        THEN conjunct1]
    by simp_all
  have 1: "create (createErrorRegistry (Some (?c\<lparr>cfg_seekers := Some []\<rparr>))) ?d1
     = Inr (named_error ''CustomError'' ''Test'')"
    using create_first_hit [of "createErrorRegistry (Some (?c\<lparr>cfg_seekers := Some []\<rparr>))"
        "[]" "''code''" "[''status'']" ?d1 "''TEST''" "error_class ''CustomError''"]
      dflt [THEN conjunct2, THEN conjunct2, THEN conjunct1] reg [of "Some []"]
    by (simp add: seeker_key_def get_prop_def createErrorFromCreator_def error_class_def
        new_named_error_string)
  have 2: "create (createErrorRegistry (Some (?c\<lparr>cfg_seekers := None\<rparr>))) ?d2
     = Inr (named_error ''NotFoundError'' ''Test'')"
    using create_first_hit [of "createErrorRegistry (Some (?c\<lparr>cfg_seekers := None\<rparr>))"
        "[''code'']" "''status''" "[]" ?d2 "''404''" "error_class ''NotFoundError''"]
      dflt [THEN conjunct2, THEN conjunct1] reg [of None]
    by (simp add: seeker_key_def get_prop_def createErrorFromCreator_def error_class_def
        new_named_error_string)
  have 3: "handleError (createErrorRegistry (Some (?c\<lparr>cfg_seekers := Some []\<rparr>))) ?e [] []
     = Inr [(''h404'', [])]"
    using handle_first_hit [of "createErrorRegistry (Some (?c\<lparr>cfg_seekers := Some []\<rparr>))"
        "[''code'']" "''status''" "[]" ?e "''404''" "log_handler ''h404''" "[]" "[]"]
      dflt [THEN conjunct2, THEN conjunct2, THEN conjunct1] reg [of "Some []"]
    by (simp add: seeker_key_def get_prop_def log_handler_def)
  have 4: "create (createErrorRegistry (Some (?c\<lparr>cfg_seekers := Some [''errorCode'']\<rparr>))) ?d3
     = Inr (named_error ''NotFoundError'' ''Test'')"
    using create_first_hit [of "createErrorRegistry (Some (?c\<lparr>cfg_seekers := Some [''errorCode'']\<rparr>))"
        "[]" "''errorCode''" "[]" ?d3 "''404''" "error_class ''NotFoundError''"]
      seekers_default_when_omitted_or_empty [of ?c "[''errorCode'']", THEN conjunct2, THEN conjunct2,
        THEN conjunct2, THEN conjunct1]
      reg [of "Some [''errorCode'']"]
    by (simp add: seeker_key_def get_prop_def createErrorFromCreator_def error_class_def
        new_named_error_string)
  show ?thesis using 1 2 3 4 by simp
qed

text \<open>
  C10. Constructor or factory is decided by the \<^verbatim>\<open>prototype\<close> check alone, for a creator from
  the \<^verbatim>\<open>errors\<close> configuration, for one registered with \<^verbatim>\<open>registerError\<close> and for the
  \<^verbatim>\<open>baseError\<close>: a function with a \<^verbatim>\<open>prototype\<close> property is invoked with \<^verbatim>\<open>new\<close>, anything else
  is called. In the witness a class is constructed and arrow functions are called.
\<close>

theorem creator_dispatch_on_prototype:
  "(seekers st = pre @ s # post
      \<and> (\<forall>t\<in>set pre. seeker_key d t = Inr None
            \<or> (\<exists>k'. seeker_key d t = Inr (Some k') \<and> errorRegistry st k' = None))
      \<and> seeker_key d s = Inr (Some k)
      \<and> errorRegistry st k = Some c
    \<longrightarrow> create st d = (if is_function c \<and> has_prototype c then construct c d else call c d))
   \<and> ((\<forall>t\<in>set (seekers st). seeker_key d t = Inr None
            \<or> (\<exists>k'. seeker_key d t = Inr (Some k') \<and> errorRegistry st k' = None))
      \<and> baseError st = Some b
    \<longrightarrow> create st d = (if is_function b \<and> has_prototype b then construct b d else call b d))
   \<and> (seekers st = s # post \<and> seeker_key d s = Inr (Some (key_String key))
    \<longrightarrow> create (registerError key c st) d
          = (if is_function c \<and> has_prototype c then construct c d else call c d))"
proof -
  have c1: "seekers st = pre @ s # post
      \<and> (\<forall>t\<in>set pre. seeker_key d t = Inr None
            \<or> (\<exists>k'. seeker_key d t = Inr (Some k') \<and> errorRegistry st k' = None))
      \<and> seeker_key d s = Inr (Some k)
      \<and> errorRegistry st k = Some c
    \<longrightarrow> create st d = (if is_function c \<and> has_prototype c then construct c d else call c d)"
    using create_first_hit [of st pre s post d k c] by (auto simp: createErrorFromCreator_def)
  have c2: "(\<forall>t\<in>set (seekers st). seeker_key d t = Inr None
            \<or> (\<exists>k'. seeker_key d t = Inr (Some k') \<and> errorRegistry st k' = None))
      \<and> baseError st = Some b
    \<longrightarrow> create st d = (if is_function b \<and> has_prototype b then construct b d else call b d)"
    using create_all_miss [of st d] by (auto simp: create_fallback_def createErrorFromCreator_def)
  have c3: "seekers st = s # post \<and> seeker_key d s = Inr (Some (key_String key))
    \<longrightarrow> create (registerError key c st) d
          = (if is_function c \<and> has_prototype c then construct c d else call c d)"
    using create_first_hit [of "registerError key c st" "[]" s post d "key_String key" c]
    by (auto simp: registerError_def createErrorFromCreator_def)
  show ?thesis by (intro conjI) (fact c1 c2 c3)+
qed

theorem creator_dispatch_on_prototype_witness:
  "create (createErrorRegistry (Some
       \<lparr>cfg_seekers = None, cfg_baseError = Some (arrow_factory ''ApiError''),
        cfg_errors = [(''NOT_FOUND'', error_class ''NotFoundError'')],
        cfg_handlers = [(''404'', log_handler ''h'')]\<rparr>))
     (Some [''code'' \<mapsto> Inr (VStr ''NOT_FOUND'')])
   = construct (error_class ''NotFoundError'') (Some [''code'' \<mapsto> Inr (VStr ''NOT_FOUND'')])
   \<and> create (createErrorRegistry (Some
       \<lparr>cfg_seekers = None, cfg_baseError = Some (arrow_factory ''ApiError''),
        cfg_errors = [(''NOT_FOUND'', error_class ''NotFoundError'')],
        cfg_handlers = [(''404'', log_handler ''h'')]\<rparr>))
     (Some [''code'' \<mapsto> Inr (VStr ''OTHER'')])
   = call (arrow_factory ''ApiError'') (Some [''code'' \<mapsto> Inr (VStr ''OTHER'')])
   \<and> create (registerError (KNumber ''404'') (arrow_factory ''Made'') (createErrorRegistry (Some
       \<lparr>cfg_seekers = None, cfg_baseError = Some (arrow_factory ''ApiError''),
        cfg_errors = [(''NOT_FOUND'', error_class ''NotFoundError'')],
        cfg_handlers = [(''404'', log_handler ''h'')]\<rparr>)))
     (Some [''code'' \<mapsto> Inr (VStr ''404'')])
   = call (arrow_factory ''Made'') (Some [''code'' \<mapsto> Inr (VStr ''404'')])"
proof -
  let ?st = "createErrorRegistry (Some
       \<lparr>cfg_seekers = None, cfg_baseError = Some (arrow_factory ''ApiError''),
        cfg_errors = [(''NOT_FOUND'', error_class ''NotFoundError'')],
        cfg_handlers = [(''404'', log_handler ''h'')]\<rparr>)"
  have st: "seekers ?st = [''code'', ''status'']"
    "baseError ?st = Some (arrow_factory ''ApiError'')"
    "errorRegistry ?st = [''NOT_FOUND'' \<mapsto> error_class ''NotFoundError'']"
    by (simp_all add: createErrorRegistry_def defaultSeekers_def)
  have 1: "create ?st (Some [''code'' \<mapsto> Inr (VStr ''NOT_FOUND'')])
     = construct (error_class ''NotFoundError'') (Some [''code'' \<mapsto> Inr (VStr ''NOT_FOUND'')])"
    using creator_dispatch_on_prototype [of ?st "[]" "''code''" "[''status'']"
        "Some [''code'' \<mapsto> Inr (VStr ''NOT_FOUND'')]" "''NOT_FOUND''" "error_class ''NotFoundError''",
        THEN conjunct1] st
    by (simp add: seeker_key_def get_prop_def error_class_def)
  have 2: "create ?st (Some [''code'' \<mapsto> Inr (VStr ''OTHER'')])
     = call (arrow_factory ''ApiError'') (Some [''code'' \<mapsto> Inr (VStr ''OTHER'')])"
    using creator_dispatch_on_prototype [of ?st _ _ _
        "Some [''code'' \<mapsto> Inr (VStr ''OTHER'')]" _ _ "arrow_factory ''ApiError''",
        THEN conjunct2, THEN conjunct1] st
    by (simp add: seeker_key_def get_prop_def arrow_factory_def)
  have 3: "create (registerError (KNumber ''404'') (arrow_factory ''Made'') ?st)
       (Some [''code'' \<mapsto> Inr (VStr ''404'')])
     = call (arrow_factory ''Made'') (Some [''code'' \<mapsto> Inr (VStr ''404'')])"
    using creator_dispatch_on_prototype [of ?st _ "''code''" "[''status'']"
        "Some [''code'' \<mapsto> Inr (VStr ''404'')]" _ "arrow_factory ''Made''" _ "KNumber ''404''",
        THEN conjunct2, THEN conjunct2] st
    by (simp add: seeker_key_def get_prop_def arrow_factory_def)
  show ?thesis using 1 2 3 by blast
qed

end
